theory Spec2Isabelle
  imports Main "HOL-Library.AList"
begin

section \<open>Values of the interpreter\<close>

text \<open>
  An environment object of the source (class \<open>Env\<close>) has a mutable dictionary
  \<open>storage\<close> and an \<open>outer\<close> reference fixed at construction.  The model keeps
  the dictionaries in a store of frames (see \<open>state\<close> below) and represents the object by
  the index of its frame together with its outer chain.
\<close>

datatype env = Env (frame_of: nat) (outer_of: "env option")

text \<open>
  The Python objects behind the names installed by \<open>add_globals\<close>.  One constructor per
  Python object: \<open>+\<close> and \<open>append\<close> are both \<open>op.add\<close>, \<open>=\<close> and \<open>equal?\<close> are both
  \<open>op.eq\<close>.  \<open>LetMacro\<close> is the function \<open>let\<close> of the macro table.  \<open>Host name\<close> stands
  for a host function that the embedding does not follow (ports, files, devices).
\<close>

datatype prim =
    OpAdd | OpSub | OpMul | OpNot | OpGt | OpLt | OpGe | OpLe | OpEq
  | Len | Cons | Car | Cdr | ListP | ListQ | NullQ | SymbolQ | BooleanQ | PairQ
  | Apply | EvalP | Callcc | EofObjectQ | LetMacro | Host string

text \<open>
  Values: \<open>NoneV\<close> is Python's \<open>None\<close>, \<open>Sym\<close> an interned \<open>Symbol\<close>, \<open>EofObject\<close> the one
  uninterned symbol \<open>eof_object\<close>, \<open>Procedure parms exp env\<close> an instance of class
  \<open>Procedure\<close>, \<open>Throw b\<close> the closure \<open>throw\<close> made by the \<open>b\<close>-th call of \<open>callcc\<close>.
  Floating-point numbers are outside the embedding.
\<close>

datatype val =
    NoneV
  | Bool bool
  | Integer int
  | Str string
  | Sym string
  | EofObject
  | List "val list"
  | Procedure val val env
  | Native prim
  | Throw nat

datatype error =
    SyntaxError string
  | TypeError
  | LookupError string
  | IndexError
  | ValueError
  | Escape nat val
  | RecursionDepth
  | LoopFuel
  | Unmodelled

text \<open>
  \<open>Escape b v\<close> is the \<open>RuntimeWarning\<close> object \<open>ball\<close> of the \<open>b\<close>-th call of \<open>callcc\<close> in
  flight, with \<open>ball.retval = v\<close>.  \<open>RecursionDepth\<close> and \<open>LoopFuel\<close> say that the budget
  given to the model was used up; \<open>Unmodelled\<close> marks the inputs on which the embedding
  does not follow Python (floating point, \<open>str\<close> of compound objects, sequences other than
  lists).
\<close>

section \<open>Characters and small helpers\<close>

definition dq :: char where "dq = CHR 0x22"
definition bsl :: char where "bsl = CHR 0x5C"
definition nl :: char where "nl = CHR 0x0A"
definition tab :: char where "tab = CHR 0x09"

text \<open>The characters removed by \<open>str.strip()\<close>: space, tab, newline, return, VT, FF.\<close>

definition is_space :: "char \<Rightarrow> bool" where
  "is_space c = (c \<in> set [CHR 0x20, CHR 0x09, CHR 0x0A, CHR 0x0D, CHR 0x0B, CHR 0x0C])"

definition strip :: "string \<Rightarrow> string" where
  "strip s = rev (dropWhile is_space (rev (dropWhile is_space s)))"

definition is_symbol :: "val \<Rightarrow> bool" where
  "is_symbol x = (case x of Sym s \<Rightarrow> True | EofObject \<Rightarrow> True | _ \<Rightarrow> False)"

definition is_list :: "val \<Rightarrow> bool" where
  "is_list x = (case x of List xs \<Rightarrow> True | _ \<Rightarrow> False)"

section \<open>Printer\<close>

fun digits :: "nat \<Rightarrow> string" where
  "digits n = (if n < 10 then [''0123456789'' ! n]
               else digits (n div 10) @ [''0123456789'' ! (n mod 10)])"

declare digits.simps [simp del]

definition str_int :: "int \<Rightarrow> string" where
  "str_int i = (if i < 0 then CHR ''-'' # digits (nat (- i)) else digits (nat i))"

text \<open>\<open>' '.join(xs)\<close>\<close>

fun join_sp :: "string list \<Rightarrow> string" where
  "join_sp [] = []"
| "join_sp [x] = x"
| "join_sp (x # y # ys) = x @ CHR 0x20 # join_sp (y # ys)"

text \<open>\<open>x.replace('"', r'\"')\<close>\<close>

definition escape_dq :: "string \<Rightarrow> string" where
  "escape_dq s = concat (map (\<lambda>c. if c = dq then [bsl, dq] else [c]) s)"

text \<open>
  \<open>to_string\<close>.  The last branch of the source is \<open>str(x)\<close>: decimal digits for an
  integer, \<open>None\<close> for \<open>None\<close>; for procedure objects Python prints an address, for which
  the model has a fixed text.
\<close>

fun to_string :: "val \<Rightarrow> string" where
  "to_string (Bool b) = (if b then ''#t'' else ''#f'')"
| "to_string (Sym s) = s"
| "to_string EofObject = ''#<eof-object>''"
| "to_string (Str s) = dq # escape_dq s @ [dq]"
| "to_string (List xs) = CHR ''('' # join_sp (map to_string xs) @ '')''"
| "to_string (Integer i) = str_int i"
| "to_string NoneV = ''None''"
| "to_string (Procedure p e v) = ''<Procedure>''"
| "to_string (Native p) = ''<function>''"
| "to_string (Throw b) = ''<function>''"

section \<open>Reader\<close>

subsection \<open>The tokenizer regular expression\<close>

text \<open>
  \<open>[ ]*(,@|[('`,)]|"(?:[\\].|[^\\"])*"|;.*|[^ ('"`,;)]*)(.*)\<close>

  \<open>scan_string\<close> is the part of the third alternative after the opening quote: it returns
  the text matched up to and including the closing quote, and the rest.  Backtracking
  cannot shorten the match, because an iteration of the group never ends on an
  unescaped quote.  The dot does not match a newline.
\<close>

fun scan_string :: "string \<Rightarrow> (string \<times> string) option" where
  "scan_string [] = None"
| "scan_string (c # cs) =
     (if c = dq then Some ([c], cs)
      else if c = bsl then
        (case cs of
           [] \<Rightarrow> None
         | d # ds \<Rightarrow>
             if d = nl then None
             else (case scan_string ds of
                     None \<Rightarrow> None
                   | Some (m, r) \<Rightarrow> Some (c # d # m, r)))
      else (case scan_string cs of
              None \<Rightarrow> None
            | Some (m, r) \<Rightarrow> Some (c # m, r)))"

definition dot_star :: "string \<Rightarrow> string" where
  "dot_star s = takeWhile (\<lambda>c. c \<noteq> nl) s"

definition non_delim :: "char \<Rightarrow> bool" where
  "non_delim c = (c \<notin> set [CHR 0x20, CHR ''('', CHR 0x27, dq, CHR 0x60, CHR '','', CHR '';'', CHR '')''])"

text \<open>\<open>tokenizer l\<close> is \<open>(m.group(1), m.group(2))\<close> for \<open>m = ure.match(InPort.tokenizer, l)\<close>.\<close>

definition tokenizer :: "string \<Rightarrow> string \<times> string" where
  "tokenizer l =
     (let s = dropWhile (\<lambda>c. c = CHR 0x20) l in
      case s of
        [] \<Rightarrow> ([], [])
      | c # cs \<Rightarrow>
          if c = CHR '','' \<and> take 1 cs = ''@'' then ('',@'', dot_star (drop 1 cs))
          else if c \<in> set [CHR ''('', CHR 0x27, CHR 0x60, CHR '','', CHR '')''] then ([c], dot_star cs)
          else if c = dq \<and> scan_string cs \<noteq> None then
            (case scan_string cs of
               Some (m, r) \<Rightarrow> (c # m, dot_star r)
             | None \<Rightarrow> ([], []))
          else if c = CHR '';'' then (c # dot_star cs, [])
          else (takeWhile non_delim s, dot_star (dropWhile non_delim s)))"

subsection \<open>Input ports and tokens\<close>

record inport =
  afile :: string
  line :: string

datatype token = Tok string | EOF

text \<open>\<open>afile.readline()\<close>: the text up to and including the next newline, and what is left.\<close>

definition readline :: "string \<Rightarrow> string \<times> string" where
  "readline f =
     (case dropWhile (\<lambda>c. c \<noteq> nl) f of
        [] \<Rightarrow> (f, [])
      | c # r \<Rightarrow> (takeWhile (\<lambda>c. c \<noteq> nl) f @ [c], r))"

text \<open>
  \<open>InPort.next_token\<close>.  The loop of the source does not end when the line starts with a
  double quote that is never closed (the token is empty and the line stays as it is):
  then the value is \<open>None\<close>.
\<close>

definition fill_line :: "inport \<Rightarrow> inport" where
  "fill_line p =
     (if line p = [] then \<lparr>afile = snd (readline (afile p)), line = fst (readline (afile p))\<rparr>
      else p)"

partial_function (option) next_token :: "inport \<Rightarrow> (token \<times> inport) option" where
  "next_token p =
     (let q = fill_line p in
      if line q = [] then Some (EOF, q)
      else
        (let m = tokenizer (strip (line q)) in
         if fst m \<noteq> [] \<and> take 1 (fst m) \<noteq> '';''
         then Some (Tok (fst m), q\<lparr>line := snd m\<rparr>)
         else next_token (q\<lparr>line := snd m\<rparr>)))"

declare next_token.simps [code]

subsection \<open>Atoms\<close>

definition is_digit :: "char \<Rightarrow> bool" where
  "is_digit c = (c \<in> set ''0123456789'')"

definition digit_val :: "char \<Rightarrow> nat" where
  "digit_val c = length (takeWhile (\<lambda>d. d \<noteq> c) ''0123456789'')"

text \<open>A digit part of Python's numeric grammar: digits, single underscores between them.\<close>

fun digit_part :: "string \<Rightarrow> bool" where
  "digit_part [] = False"
| "digit_part [c] = is_digit c"
| "digit_part (c # d # r) =
     (is_digit c \<and> (if d = CHR ''_'' then digit_part r else digit_part (d # r)))"

definition has_sign :: "string \<Rightarrow> bool" where
  "has_sign s = (take 1 s = ''+'' \<or> take 1 s = ''-'')"

definition unsign :: "string \<Rightarrow> string" where
  "unsign s = (if has_sign s then drop 1 s else s)"

text \<open>\<open>int(token)\<close> succeeds on \<open>int_literal\<close> tokens, with value \<open>int_value\<close>.\<close>

definition int_literal :: "string \<Rightarrow> bool" where
  "int_literal s = digit_part (unsign (strip s))"

definition nat_value :: "string \<Rightarrow> nat" where
  "nat_value s = foldl (\<lambda>a c. 10 * a + digit_val c) 0 (filter is_digit s)"

definition int_value :: "string \<Rightarrow> int" where
  "int_value s =
     (if take 1 (strip s) = ''-'' then - int (nat_value (strip s)) else int (nat_value (strip s)))"

definition lower :: "char \<Rightarrow> char" where
  "lower c = (case map_of (zip ''ABCDEFGHIJKLMNOPQRSTUVWXYZ'' ''abcdefghijklmnopqrstuvwxyz'') c of
                Some d \<Rightarrow> d | None \<Rightarrow> c)"

definition is_e :: "char \<Rightarrow> bool" where
  "is_e c = (c = CHR ''e'' \<or> c = CHR ''E'')"

definition mantissa :: "string \<Rightarrow> bool" where
  "mantissa m =
     (let ip = takeWhile (\<lambda>c. c \<noteq> CHR ''.'') m; fp = dropWhile (\<lambda>c. c \<noteq> CHR ''.'') m in
      if fp = [] then digit_part ip
      else (ip = [] \<and> digit_part (drop 1 fp))
           \<or> (digit_part ip \<and> (drop 1 fp = [] \<or> digit_part (drop 1 fp))))"

text \<open>\<open>float(token)\<close> succeeds on \<open>float_literal\<close> tokens (tried after \<open>int\<close> has failed).\<close>

definition float_literal :: "string \<Rightarrow> bool" where
  "float_literal s =
     (let t = unsign (strip s) in
      map lower t \<in> set [''inf'', ''infinity'', ''nan'']
      \<or> (mantissa (takeWhile (\<lambda>c. \<not> is_e c) t)
          \<and> (dropWhile (\<lambda>c. \<not> is_e c) t = []
               \<or> digit_part (unsign (drop 1 (dropWhile (\<lambda>c. \<not> is_e c) t))))))"

text \<open>
  \<open>atom\<close>.  A token that \<open>float\<close> accepts gives a floating-point number in the source;
  the model answers \<open>Unmodelled\<close> there.
\<close>

definition atom :: "string \<Rightarrow> error + val" where
  "atom t =
     (if t = ''#t'' then Inr (Bool True)
      else if t = ''#f'' then Inr (Bool False)
      else if take 1 t = [dq] then Inr (Str (butlast (drop 1 t)))
      else if int_literal t then Inr (Integer (int_value t))
      else if float_literal t then Inl Unmodelled
      else Inr (Sym t))"

subsection \<open>read\<close>

text \<open>The dictionary \<open>quotes\<close>.\<close>

definition quotes :: "(string \<times> string) list" where
  "quotes = [([CHR 0x27], ''quote''), ([CHR 0x60], ''quasiquote''),
             ('','', ''unquote''), ('',@'', ''unquote-splicing'')]"

text \<open>
  \<open>read\<close> and its inner function \<open>read_ahead\<close>; \<open>read_elems\<close> is the \<open>while\<close> loop that
  collects the elements of a list in \<open>L\<close>.  The first argument bounds the number of nested
  calls and loop rounds; the value \<open>None\<close> says that the bound was reached or that
  \<open>next_token\<close> does not return.
\<close>

fun read_ahead :: "nat \<Rightarrow> token \<Rightarrow> inport \<Rightarrow> (error + val \<times> inport) option"
  and read_elems :: "nat \<Rightarrow> val list \<Rightarrow> inport \<Rightarrow> (error + val \<times> inport) option"
  and read :: "nat \<Rightarrow> inport \<Rightarrow> (error + val \<times> inport) option" where
  "read_ahead 0 t p = None"
| "read_ahead (Suc n) t p =
     (case t of
        EOF \<Rightarrow> Some (Inl (SyntaxError ''unexpected EOF in list''))
      | Tok s \<Rightarrow>
          if s = ''('' then read_elems n [] p
          else if s = '')'' then Some (Inl (SyntaxError ''unexpected )''))
          else (case map_of quotes s of
                  Some q \<Rightarrow>
                    (case read n p of
                       None \<Rightarrow> None
                     | Some (Inl e) \<Rightarrow> Some (Inl e)
                     | Some (Inr (v, p')) \<Rightarrow> Some (Inr (List [Sym q, v], p')))
                | None \<Rightarrow>
                    (case atom s of
                       Inl e \<Rightarrow> Some (Inl e)
                     | Inr v \<Rightarrow> Some (Inr (v, p)))))"
| "read_elems 0 L p = None"
| "read_elems (Suc n) L p =
     (case next_token p of
        None \<Rightarrow> None
      | Some (t, p') \<Rightarrow>
          if t = Tok '')'' then Some (Inr (List L, p'))
          else (case read_ahead n t p' of
                  None \<Rightarrow> None
                | Some (Inl e) \<Rightarrow> Some (Inl e)
                | Some (Inr (v, p'')) \<Rightarrow> read_elems n (L @ [v]) p''))"
| "read 0 p = None"
| "read (Suc n) p =
     (case next_token p of
        None \<Rightarrow> None
      | Some (t, p') \<Rightarrow>
          if t = EOF then Some (Inr (EofObject, p')) else read_ahead n t p')"

text \<open>An input port on a text, as \<open>InPort(StringIO(text))\<close> makes it.\<close>

definition InPort :: "string \<Rightarrow> inport" where
  "InPort text = \<lparr>afile = text, line = []\<rparr>"

section \<open>Interpreter state\<close>

text \<open>
  \<open>frames\<close> holds the \<open>storage\<close> dictionary of every \<open>Env\<close> object made so far (frame 0
  is \<open>global_env\<close>), \<open>macro_table\<close> is the dictionary of that name, \<open>balls\<close> counts the
  calls of \<open>callcc\<close> so far.
\<close>

record state =
  frames :: "(string \<times> val) list list"
  macro_table :: "(string \<times> val) list"
  balls :: nat

type_synonym 'a res = "(error + 'a) \<times> state"

definition ret :: "'a \<Rightarrow> state \<Rightarrow> 'a res" where
  "ret a s = (Inr a, s)"

definition raise :: "error \<Rightarrow> state \<Rightarrow> 'a res" where
  "raise e s = (Inl e, s)"

text \<open>Sequencing: an exception of the first part skips the second.\<close>

definition then_do :: "(state \<Rightarrow> 'a res) \<Rightarrow> ('a \<Rightarrow> state \<Rightarrow> 'b res) \<Rightarrow> state \<Rightarrow> 'b res" where
  "then_do m k s = (case m s of (Inl e, s') \<Rightarrow> (Inl e, s') | (Inr a, s') \<Rightarrow> k a s')"

definition lift :: "error + 'a \<Rightarrow> state \<Rightarrow> 'a res" where
  "lift r s = (r, s)"

text \<open>A comprehension or \<open>map\<close> whose function may raise: left to right.\<close>

primrec each :: "('a \<Rightarrow> state \<Rightarrow> 'b res) \<Rightarrow> 'a list \<Rightarrow> state \<Rightarrow> 'b list res" where
  "each f [] = ret []"
| "each f (x # xs) = then_do (f x) (\<lambda>y. then_do (each f xs) (\<lambda>ys. ret (y # ys)))"

definition storage :: "state \<Rightarrow> nat \<Rightarrow> (string \<times> val) list" where
  "storage s i = (if i < length (frames s) then frames s ! i else [])"

text \<open>\<open>e.storage[k] = v\<close> for the environment with frame \<open>i\<close>.\<close>

definition store :: "nat \<Rightarrow> string \<Rightarrow> val \<Rightarrow> state \<Rightarrow> state" where
  "store i k v s = s\<lparr>frames := (frames s)[i := AList.update k v (storage s i)]\<rparr>"

section \<open>Python's view of the values\<close>

text \<open>\<open>str(x)\<close>, where the model follows it.\<close>

definition py_str :: "val \<Rightarrow> string option" where
  "py_str x =
     (case x of
        Sym n \<Rightarrow> Some n
      | EofObject \<Rightarrow> Some ''#<eof-object>''
      | Str t \<Rightarrow> Some t
      | Integer i \<Rightarrow> Some (str_int i)
      | Bool b \<Rightarrow> Some (if b then ''True'' else ''False'')
      | NoneV \<Rightarrow> Some ''None''
      | _ \<Rightarrow> None)"

text \<open>The text of a \<open>str\<close> object (\<open>Symbol\<close> is a subclass of \<open>str\<close>).\<close>

definition text_of :: "val \<Rightarrow> string option" where
  "text_of x =
     (case x of Sym n \<Rightarrow> Some n | EofObject \<Rightarrow> Some ''#<eof-object>'' | Str t \<Rightarrow> Some t
      | _ \<Rightarrow> None)"

text \<open>The number of an \<open>int\<close> object (\<open>bool\<close> is a subclass of \<open>int\<close>).\<close>

definition num_of :: "val \<Rightarrow> int option" where
  "num_of x =
     (case x of Integer i \<Rightarrow> Some i | Bool b \<Rightarrow> Some (if b then 1 else 0) | _ \<Rightarrow> None)"

text \<open>Truth value of an object in a condition.\<close>

definition truthy :: "val \<Rightarrow> bool" where
  "truthy x =
     (case x of
        NoneV \<Rightarrow> False
      | Bool b \<Rightarrow> b
      | Integer i \<Rightarrow> i \<noteq> 0
      | Str t \<Rightarrow> t \<noteq> []
      | Sym n \<Rightarrow> n \<noteq> []
      | List xs \<Rightarrow> xs \<noteq> []
      | _ \<Rightarrow> True)"

text \<open>
  \<open>a == b\<close>.  Two \<open>Procedure\<close> objects are equal when they are the same object, which
  the model cannot tell for two equal triples: \<open>None\<close> there.
\<close>

fun py_eq :: "val \<Rightarrow> val \<Rightarrow> bool option"
  and py_eq_list :: "val list \<Rightarrow> val list \<Rightarrow> bool option" where
  "py_eq (List xs) (List ys) = (if length xs \<noteq> length ys then Some False else py_eq_list xs ys)"
| "py_eq (Procedure p e v) (Procedure p' e' v') =
     (if p = p' \<and> e = e' \<and> v = v' then None else Some False)"
| "py_eq a b =
     (if num_of a \<noteq> None \<and> num_of b \<noteq> None then Some (num_of a = num_of b)
      else if text_of a \<noteq> None \<and> text_of b \<noteq> None then Some (text_of a = text_of b)
      else Some (a = b))"
| "py_eq_list (x # xs) (y # ys) =
     (case py_eq x y of Some True \<Rightarrow> py_eq_list xs ys | r \<Rightarrow> r)"
| "py_eq_list xs ys = Some True"

definition is_pair :: "val \<Rightarrow> bool" where
  "is_pair x = (x \<noteq> List [] \<and> is_list x)"

section \<open>Environments\<close>

text \<open>
  \<open>Env.__init__\<close>: a new frame.  \<open>parms\<close> a symbol binds it to the list of all arguments;
  otherwise the lengths must agree (\<open>TypeError\<close>, whose message the model leaves out).
  \<open>len\<close> of an object that is not a sequence raises \<open>TypeError\<close> as well.
\<close>

definition new_env :: "(string \<times> val) list \<Rightarrow> env option \<Rightarrow> state \<Rightarrow> env res" where
  "new_env st outer s = (Inr (Env (length (frames s)) outer), s\<lparr>frames := frames s @ [st]\<rparr>)"

definition update_all :: "(string \<times> val) list \<Rightarrow> (string \<times> val) list" where
  "update_all kvs = foldl (\<lambda>d (k, v). AList.update k v d) [] kvs"

definition Env_init :: "val \<Rightarrow> val list \<Rightarrow> env option \<Rightarrow> state \<Rightarrow> env res" where
  "Env_init parms args outer =
     (case text_of parms of
        Some n \<Rightarrow>
          if is_symbol parms then new_env [(n, List args)] outer
          else if length args \<noteq> length n then raise TypeError
          else new_env (update_all (zip (map (\<lambda>c. [c]) n) args)) outer
      | None \<Rightarrow>
          (case parms of
             List ps \<Rightarrow>
               if length args \<noteq> length ps then raise TypeError
               else (case those (map py_str ps) of
                       Some names \<Rightarrow> new_env (update_all (zip names args)) outer
                     | None \<Rightarrow> raise Unmodelled)
           | _ \<Rightarrow> raise TypeError))"

text \<open>\<open>Env.find\<close>, with \<open>var\<close> the text \<open>str(var)\<close>.\<close>

fun find_env :: "state \<Rightarrow> env \<Rightarrow> string \<Rightarrow> error + env" where
  "find_env s (Env i out) var =
     (if map_of (storage s i) var \<noteq> None then Inr (Env i out)
      else (case out of
              None \<Rightarrow> Inl (LookupError var)
            | Some e \<Rightarrow> find_env s e var))"

text \<open>\<open>env.find(var).storage[var]\<close>\<close>

definition lookup :: "state \<Rightarrow> env \<Rightarrow> string \<Rightarrow> error + val" where
  "lookup s e var =
     (case find_env s e var of
        Inl err \<Rightarrow> Inl err
      | Inr e' \<Rightarrow>
          (case map_of (storage s (frame_of e')) var of
             Some v \<Rightarrow> Inr v
           | None \<Rightarrow> Inl (LookupError var)))"

definition global_env :: env where
  "global_env = Env 0 None"

section \<open>Syntax errors and the quasiquote engine\<close>

definition wrong_length :: string where
  "wrong_length = ''wrong length''"

text \<open>\<open>require\<close>, as a value and as a step of the interpreter.\<close>

definition require_pure :: "val \<Rightarrow> bool \<Rightarrow> string \<Rightarrow> error + unit" where
  "require_pure x predicate msg =
     (if \<not> predicate then Inl (SyntaxError (to_string x @ '': '' @ msg)) else Inr ())"

definition require :: "val \<Rightarrow> bool \<Rightarrow> string \<Rightarrow> state \<Rightarrow> unit res" where
  "require x predicate msg = lift (require_pure x predicate msg)"

definition elems :: "val \<Rightarrow> val list" where
  "elems x = (case x of List xs \<Rightarrow> xs | _ \<Rightarrow> [])"

fun expand_quasiquote :: "val \<Rightarrow> error + val" where
  "expand_quasiquote (List (h # t)) =
     (if h = Sym ''unquote-splicing'' then
        Inl (SyntaxError (to_string (List (h # t)) @ '': can'' @ [CHR 0x27] @ ''t splice here''))
      else if h = Sym ''unquote'' then
        (if length t = 1 then Inr (hd t)
         else Inl (SyntaxError (to_string (List (h # t)) @ '': '' @ wrong_length)))
      else if is_pair h \<and> take 1 (elems h) = [Sym ''unquote-splicing''] then
        (if length (elems h) = 2 then
           (case expand_quasiquote (List t) of
              Inl e \<Rightarrow> Inl e
            | Inr r \<Rightarrow> Inr (List [Sym ''append'', elems h ! 1, r]))
         else Inl (SyntaxError (to_string h @ '': '' @ wrong_length)))
      else
        (case expand_quasiquote h of
           Inl e \<Rightarrow> Inl e
         | Inr a \<Rightarrow>
             (case expand_quasiquote (List t) of
                Inl e \<Rightarrow> Inl e
              | Inr b \<Rightarrow> Inr (List [Sym ''cons'', a, b]))))"
| "expand_quasiquote x = Inr (List [Sym ''quote'', x])"

section \<open>Procedure calls\<close>

text \<open>
  The interpreter's Python functions call each other: \<open>eval\<close>, \<open>expand\<close> and the call of
  a procedure object.  A \<open>call\<close> names one such activation; the functions below take the
  interpreter for the nested activations as the argument \<open>rec\<close>.
\<close>

datatype call = CEval val env | CExpand val bool | CCall val "val list"

text \<open>\<open>op.add\<close>, \<open>op.sub\<close>, \<open>op.mul\<close> and the comparisons, on two arguments.\<close>

definition arith :: "prim \<Rightarrow> val \<Rightarrow> val \<Rightarrow> error + val" where
  "arith p a b =
     (case (num_of a, num_of b) of
        (Some i, Some j) \<Rightarrow>
          if p = OpAdd then Inr (Integer (i + j))
          else if p = OpSub then Inr (Integer (i - j))
          else if p = OpMul then Inr (Integer (i * j))
          else if p = OpGt then Inr (Bool (i > j))
          else if p = OpLt then Inr (Bool (i < j))
          else if p = OpGe then Inr (Bool (i \<ge> j))
          else if p = OpLe then Inr (Bool (i \<le> j))
          else Inl Unmodelled
      | _ \<Rightarrow>
          if p = OpAdd then
            (case (text_of a, text_of b) of
               (Some t, Some u) \<Rightarrow> Inr (Str (t @ u))
             | _ \<Rightarrow>
                 (case (a, b) of
                    (List xs, List ys) \<Rightarrow> Inr (List (xs @ ys))
                  | _ \<Rightarrow> Inl TypeError))
          else if p = OpSub then Inl TypeError
          else Inl Unmodelled)"

definition unary :: "val list \<Rightarrow> (val \<Rightarrow> state \<Rightarrow> val res) \<Rightarrow> state \<Rightarrow> val res" where
  "unary args f = (case args of [a] \<Rightarrow> f a | _ \<Rightarrow> raise TypeError)"

definition binary :: "val list \<Rightarrow> (val \<Rightarrow> val \<Rightarrow> state \<Rightarrow> val res) \<Rightarrow> state \<Rightarrow> val res" where
  "binary args f = (case args of [a, b] \<Rightarrow> f a b | _ \<Rightarrow> raise TypeError)"

text \<open>
  \<open>callcc\<close>: the ball is new, \<open>throw\<close> raises it with the value, and the handler
  returns the value of its own ball and raises every other one again.
\<close>

definition callcc :: "(call \<Rightarrow> state \<Rightarrow> val res) \<Rightarrow> val \<Rightarrow> state \<Rightarrow> val res" where
  "callcc rec proc s =
     (let ball = balls s in
      case rec (CCall proc [Throw ball]) (s\<lparr>balls := Suc ball\<rparr>) of
        (Inl (Escape w retval), s') \<Rightarrow>
          if w = ball then (Inr retval, s') else (Inl (Escape w retval), s')
      | (Inl e, s') \<Rightarrow> (Inl e, s')
      | (Inr v, s') \<Rightarrow> (Inr v, s'))"

text \<open>The macro \<open>let\<close>.\<close>

definition binding_ok :: "val \<Rightarrow> bool" where
  "binding_ok b = (is_list b \<and> length (elems b) = 2 \<and> is_symbol (hd (elems b)))"

definition let_macro :: "(call \<Rightarrow> state \<Rightarrow> val res) \<Rightarrow> val list \<Rightarrow> state \<Rightarrow> val res" where
  "let_macro rec args =
     then_do (require (List (Sym ''let'' # args)) (length args > 1) wrong_length) (\<lambda>_.
       case hd args of
         List bindings \<Rightarrow>
           then_do (require (List (Sym ''let'' # args)) (list_all binding_ok bindings)
                      ''illegal binding list'') (\<lambda>_.
             if bindings = [] then raise ValueError
             else
               then_do (each (\<lambda>e. rec (CExpand e False)) (tl args)) (\<lambda>body.
               then_do (each (\<lambda>e. rec (CExpand e False)) (map (\<lambda>b. elems b ! 1) bindings)) (\<lambda>vals.
                 ret (List (List (Sym ''lambda'' # List (map (\<lambda>b. hd (elems b)) bindings) # body)
                            # vals)))))
       | b \<Rightarrow>
           (case text_of b of
              Some t \<Rightarrow>
                then_do (require (List (Sym ''let'' # args)) (t = []) ''illegal binding list'')
                  (\<lambda>_. raise ValueError)
            | None \<Rightarrow> raise TypeError))"

text \<open>The functions of \<open>add_globals\<close> and of the macro table.\<close>

definition apply_prim :: "(call \<Rightarrow> state \<Rightarrow> val res) \<Rightarrow> prim \<Rightarrow> val list \<Rightarrow> state \<Rightarrow> val res" where
  "apply_prim rec p args =
     (case p of
        OpNot \<Rightarrow> unary args (\<lambda>a. ret (Bool (\<not> truthy a)))
      | OpEq \<Rightarrow>
          binary args (\<lambda>a b. case py_eq a b of Some r \<Rightarrow> ret (Bool r) | None \<Rightarrow> raise Unmodelled)
      | Len \<Rightarrow>
          unary args (\<lambda>a. case a of
             List xs \<Rightarrow> ret (Integer (int (length xs)))
           | _ \<Rightarrow> (case text_of a of
                      Some t \<Rightarrow> ret (Integer (int (length t)))
                    | None \<Rightarrow> raise TypeError))
      | Cons \<Rightarrow>
          binary args (\<lambda>x y. case y of List ys \<Rightarrow> ret (List (x # ys)) | _ \<Rightarrow> raise TypeError)
      | Car \<Rightarrow>
          unary args (\<lambda>x. case x of
             List xs \<Rightarrow> (case xs of [] \<Rightarrow> raise IndexError | h # t \<Rightarrow> ret h)
           | _ \<Rightarrow> (case text_of x of
                      Some t \<Rightarrow> (case t of [] \<Rightarrow> raise IndexError | c # r \<Rightarrow> ret (Str [c]))
                    | None \<Rightarrow> raise TypeError))
      | Cdr \<Rightarrow>
          unary args (\<lambda>x. case x of
             List xs \<Rightarrow> ret (List (drop 1 xs))
           | _ \<Rightarrow> (case text_of x of
                      Some t \<Rightarrow> ret (Str (drop 1 t))
                    | None \<Rightarrow> raise TypeError))
      | ListP \<Rightarrow> ret (List args)
      | ListQ \<Rightarrow> unary args (\<lambda>x. ret (Bool (is_list x)))
      | NullQ \<Rightarrow> unary args (\<lambda>x. ret (Bool (x = List [])))
      | SymbolQ \<Rightarrow> unary args (\<lambda>x. ret (Bool (is_symbol x)))
      | BooleanQ \<Rightarrow> unary args (\<lambda>x. ret (Bool (case x of Bool b \<Rightarrow> True | _ \<Rightarrow> False)))
      | PairQ \<Rightarrow> unary args (\<lambda>x. ret (Bool (is_pair x)))
      | Apply \<Rightarrow>
          binary args (\<lambda>proc l. case l of
             List xs \<Rightarrow> rec (CCall proc xs)
           | _ \<Rightarrow> (case text_of l of Some t \<Rightarrow> raise Unmodelled | None \<Rightarrow> raise TypeError))
      | EvalP \<Rightarrow>
          unary args (\<lambda>x. then_do (rec (CExpand x False)) (\<lambda>y. rec (CEval y global_env)))
      | Callcc \<Rightarrow> unary args (callcc rec)
      | EofObjectQ \<Rightarrow> unary args (\<lambda>x. ret (Bool (x = EofObject)))
      | LetMacro \<Rightarrow> let_macro rec args
      | Host name \<Rightarrow> raise Unmodelled
      | _ \<Rightarrow> binary args (\<lambda>a b. lift (arith p a b)))"

text \<open>
  The call \<open>proc(*args)\<close> of a Python object: \<open>Procedure.__call__\<close>, a host function,
  \<open>throw\<close>, or an object that cannot be called.
\<close>

definition call_body :: "(call \<Rightarrow> state \<Rightarrow> val res) \<Rightarrow> val \<Rightarrow> val list \<Rightarrow> state \<Rightarrow> val res" where
  "call_body rec proc args =
     (case proc of
        Procedure parms exp env \<Rightarrow>
          then_do (Env_init parms args (Some env)) (\<lambda>e. rec (CEval exp e))
      | Native p \<Rightarrow> apply_prim rec p args
      | Throw b \<Rightarrow> (case args of [retval] \<Rightarrow> raise (Escape b retval) | _ \<Rightarrow> raise TypeError)
      | _ \<Rightarrow> raise TypeError)"

definition callable :: "val \<Rightarrow> bool" where
  "callable x = (case x of Procedure p e v \<Rightarrow> True | Native p \<Rightarrow> True | Throw b \<Rightarrow> True | _ \<Rightarrow> False)"

section \<open>eval\<close>

text \<open>
  One round of the \<open>while True\<close> loop of \<open>eval\<close> either returns a value or assigns \<open>x\<close>
  (and \<open>env\<close>) and goes round again.
\<close>

datatype outcome = Return val | Continue val env

text \<open>The \<open>cond\<close> branch, over the clauses \<open>x[1:]\<close>; with no true test \<open>x\<close> stays as it is.\<close>

primrec eval_cond ::
  "(call \<Rightarrow> state \<Rightarrow> val res) \<Rightarrow> val list \<Rightarrow> val \<Rightarrow> env \<Rightarrow> state \<Rightarrow> outcome res" where
  "eval_cond rec [] x env = ret (Continue x env)"
| "eval_cond rec (clause # rest) x env =
     (case clause of
        List cs \<Rightarrow>
          (case cs of
             [] \<Rightarrow> raise IndexError
           | c0 # cr \<Rightarrow>
               then_do (rec (CEval c0 env)) (\<lambda>v.
                 if truthy v then
                   then_do (each (\<lambda>exp. rec (CEval exp env)) (butlast cr)) (\<lambda>_.
                     ret (Continue (last cs) env))
                 else eval_cond rec rest x env))
      | _ \<Rightarrow> (case text_of clause of Some t \<Rightarrow> raise Unmodelled | None \<Rightarrow> raise TypeError))"

definition eval_step ::
  "(call \<Rightarrow> state \<Rightarrow> val res) \<Rightarrow> val \<Rightarrow> env \<Rightarrow> state \<Rightarrow> outcome res" where
  "eval_step rec x env =
     (case text_of x of
        Some n \<Rightarrow>
          if is_symbol x then (\<lambda>s. lift (map_sum id Return (lookup s env n)) s)
          else ret (Return x)
      | None \<Rightarrow>
          (case x of
             List xs \<Rightarrow>
               (case xs of
                  [] \<Rightarrow> raise IndexError
                | h # t \<Rightarrow>
                    if h = Sym ''quote'' then
                      (case t of [exp] \<Rightarrow> ret (Return exp) | _ \<Rightarrow> raise ValueError)
                    else if h = Sym ''if'' then
                      (case t of
                         [test, conseq, alt] \<Rightarrow>
                           then_do (rec (CEval test env)) (\<lambda>v.
                             ret (Continue (if truthy v then conseq else alt) env))
                       | _ \<Rightarrow> raise ValueError)
                    else if h = Sym ''cond'' then eval_cond rec t x env
                    else if h = Sym ''set!'' then
                      (case t of
                         [var, exp] \<Rightarrow>
                           then_do (rec (CEval exp env)) (\<lambda>v s.
                             case py_str var of
                               None \<Rightarrow> raise Unmodelled s
                             | Some n \<Rightarrow>
                                 (case find_env s env n of
                                    Inl e \<Rightarrow> raise e s
                                  | Inr e' \<Rightarrow> ret (Return NoneV) (store (frame_of e') n v s)))
                       | _ \<Rightarrow> raise ValueError)
                    else if h = Sym ''define'' then
                      (case t of
                         [var, exp] \<Rightarrow>
                           then_do (rec (CEval exp env)) (\<lambda>v s.
                             case py_str var of
                               None \<Rightarrow> raise Unmodelled s
                             | Some n \<Rightarrow> ret (Return NoneV) (store (frame_of env) n v s))
                       | _ \<Rightarrow> raise ValueError)
                    else if h = Sym ''lambda'' then
                      (case t of
                         [vars, exp] \<Rightarrow> ret (Return (Procedure vars exp env))
                       | _ \<Rightarrow> raise ValueError)
                    else if h = Sym ''begin'' then
                      then_do (each (\<lambda>exp. rec (CEval exp env)) (butlast t)) (\<lambda>_.
                        ret (Continue (last xs) env))
                    else
                      then_do (each (\<lambda>exp. rec (CEval exp env)) xs) (\<lambda>exps.
                        case hd exps of
                          Procedure parms exp penv \<Rightarrow>
                            then_do (Env_init parms (tl exps) (Some penv)) (\<lambda>e.
                              ret (Continue exp e))
                        | proc \<Rightarrow>
                            then_do (call_body rec proc (tl exps)) (\<lambda>v. ret (Return v))))
           | _ \<Rightarrow> ret (Return x)))"

text \<open>
  The loop itself: \<open>n\<close> bounds the number of rounds of this activation.  A tail call is
  the next round of the same activation; \<open>rec\<close> is used for the nested activations only.
\<close>

primrec eval_loop ::
  "(call \<Rightarrow> state \<Rightarrow> val res) \<Rightarrow> nat \<Rightarrow> val \<Rightarrow> env \<Rightarrow> state \<Rightarrow> val res" where
  "eval_loop rec 0 x env s = (Inl LoopFuel, s)"
| "eval_loop rec (Suc n) x env s =
     (case eval_step rec x env s of
        (Inl e, s') \<Rightarrow> (Inl e, s')
      | (Inr (Return v), s') \<Rightarrow> (Inr v, s')
      | (Inr (Continue x' env'), s') \<Rightarrow> eval_loop rec n x' env' s')"

section \<open>expand\<close>

definition all_symbols :: "val \<Rightarrow> bool" where
  "all_symbols vars = (is_list vars \<and> list_all is_symbol (elems vars))"

text \<open>\<open>len(clause) >= 2\<close> for a clause of \<open>cond\<close>.\<close>

definition check_clause :: "val \<Rightarrow> state \<Rightarrow> unit res" where
  "check_clause clause =
     (case clause of
        List cs \<Rightarrow> require clause (length cs \<ge> 2) wrong_length
      | _ \<Rightarrow> (case text_of clause of
                 Some t \<Rightarrow> require clause (length t \<ge> 2) wrong_length
               | None \<Rightarrow> raise TypeError))"

text \<open>The branch of \<open>define\<close> and \<open>define-macro\<close>, for \<open>x = List xs\<close> with head \<open>def\<close>.\<close>

definition expand_define ::
  "(call \<Rightarrow> state \<Rightarrow> val res) \<Rightarrow> val \<Rightarrow> val list \<Rightarrow> bool \<Rightarrow> state \<Rightarrow> val res" where
  "expand_define rec def xs toplevel =
     then_do (require (List xs) (length xs \<ge> 3) wrong_length) (\<lambda>_.
       let v = xs ! 1; body = drop 2 xs in
       if is_list v \<and> v \<noteq> List [] then
         rec (CExpand (List [def, hd (elems v),
                             List (Sym ''lambda'' # List (tl (elems v)) # body)]) False)
       else
         then_do (require (List xs) (length xs = 3) wrong_length) (\<lambda>_.
         then_do (require (List xs) (is_symbol v) ''can define only a symbol'') (\<lambda>_.
         then_do (rec (CExpand (xs ! 2) False)) (\<lambda>exp.
           if def = Sym ''define-macro'' then
             then_do (require (List xs) toplevel ''define-macro only allowed at top level'') (\<lambda>_.
             then_do (rec (CEval exp global_env)) (\<lambda>proc.
             then_do (require (List xs) (callable proc) ''macro must be a procedure'') (\<lambda>_ s.
               ret NoneV (s\<lparr>macro_table :=
                             AList.update (the (text_of v)) proc (macro_table s)\<rparr>))))
           else ret (List [Sym ''define'', v, exp])))))"

definition expand_body ::
  "(call \<Rightarrow> state \<Rightarrow> val res) \<Rightarrow> val \<Rightarrow> bool \<Rightarrow> state \<Rightarrow> val res" where
  "expand_body rec x toplevel =
     then_do (require x (x \<noteq> List [])
                (''Empty list can'' @ [CHR 0x27] @ ''t be expanded'')) (\<lambda>_.
       case x of
         List xs \<Rightarrow>
           if hd xs = Sym ''quote'' then
             then_do (require x (length xs = 2) wrong_length) (\<lambda>_. ret x)
           else if hd xs = Sym ''if'' then
             (let ys = (if length xs = 3 then xs @ [NoneV] else xs) in
              then_do (require (List ys) (length ys = 4) wrong_length) (\<lambda>_.
              then_do (each (\<lambda>xi. rec (CExpand xi False)) ys) (\<lambda>zs. ret (List zs))))
           else if hd xs = Sym ''cond'' then
             then_do (require x (length xs > 1) wrong_length) (\<lambda>_.
             then_do (each check_clause (tl xs)) (\<lambda>_.
             then_do (each (\<lambda>xi. rec (CExpand xi False)) xs) (\<lambda>zs. ret (List zs))))
           else if hd xs = Sym ''set!'' then
             then_do (require x (length xs = 3) wrong_length) (\<lambda>_.
             then_do (require x (is_symbol (xs ! 1)) ''can set! only a symbol'') (\<lambda>_.
             then_do (rec (CExpand (xs ! 2) False)) (\<lambda>exp.
               ret (List [Sym ''set!'', xs ! 1, exp]))))
           else if hd xs = Sym ''define'' \<or> hd xs = Sym ''define-macro'' then
             expand_define rec (hd xs) xs toplevel
           else if hd xs = Sym ''begin'' then
             (if length xs = 1 then ret NoneV
              else then_do (each (\<lambda>xi. rec (CExpand xi toplevel)) xs) (\<lambda>zs. ret (List zs)))
           else if hd xs = Sym ''lambda'' then
             then_do (require x (length xs \<ge> 3) wrong_length) (\<lambda>_.
             then_do (require x (all_symbols (xs ! 1) \<or> is_symbol (xs ! 1))
                        ''illegal lambda argument list'') (\<lambda>_.
             then_do (rec (CExpand (if length (drop 2 xs) = 1 then xs ! 2
                                    else List (Sym ''begin'' # drop 2 xs)) False)) (\<lambda>exp.
               ret (List [Sym ''lambda'', xs ! 1, exp]))))
           else if hd xs = Sym ''quasiquote'' then
             then_do (require x (length xs = 2) wrong_length) (\<lambda>_.
               lift (expand_quasiquote (xs ! 1)))
           else
             (\<lambda>s. case (if is_symbol (hd xs)
                         then map_of (macro_table s) (the (text_of (hd xs))) else None) of
                     Some m \<Rightarrow>
                       then_do (rec (CCall m (tl xs))) (\<lambda>y. rec (CExpand y toplevel)) s
                   | None \<Rightarrow>
                       then_do (each (\<lambda>xi. rec (CExpand xi False)) xs) (\<lambda>zs. ret (List zs)) s)
       | _ \<Rightarrow> ret x)"

section \<open>The interpreter\<close>

text \<open>
  \<open>run n d\<close> is the interpreter with at most \<open>d\<close> nested activations (the depth of the
  Python call stack that \<open>eval\<close>, \<open>expand\<close> and procedure calls build up), each activation
  of \<open>eval\<close> making at most \<open>n\<close> rounds of its loop.
\<close>

primrec run :: "nat \<Rightarrow> nat \<Rightarrow> call \<Rightarrow> state \<Rightarrow> val res" where
  "run n 0 c s = (Inl RecursionDepth, s)"
| "run n (Suc d) c s =
     (case c of
        CEval x env \<Rightarrow> eval_loop (run n d) n x env s
      | CExpand x toplevel \<Rightarrow> expand_body (run n d) x toplevel s
      | CCall proc args \<Rightarrow> call_body (run n d) proc args s)"

definition eval :: "nat \<Rightarrow> nat \<Rightarrow> val \<Rightarrow> env \<Rightarrow> state \<Rightarrow> val res" where
  "eval n d x env = run n d (CEval x env)"

definition expand :: "nat \<Rightarrow> nat \<Rightarrow> val \<Rightarrow> bool \<Rightarrow> state \<Rightarrow> val res" where
  "expand n d x toplevel = run n d (CExpand x toplevel)"

text \<open>
  \<open>parse\<close> on the text of a string: \<open>expand(read(inport), toplevel=True)\<close>.  \<open>None\<close> when the
  reader gives no answer.
\<close>

definition parse :: "nat \<Rightarrow> nat \<Rightarrow> string \<Rightarrow> state \<Rightarrow> (val res) option" where
  "parse n d text s =
     (case read n (InPort text) of
        None \<Rightarrow> None
      | Some (Inl e) \<Rightarrow> Some (Inl e, s)
      | Some (Inr (x, p)) \<Rightarrow> Some (expand n d x True s))"

text \<open>\<open>eval(parse(text))\<close>\<close>

definition eval_text :: "nat \<Rightarrow> nat \<Rightarrow> string \<Rightarrow> state \<Rightarrow> (val res) option" where
  "eval_text n d text s =
     (case parse n d text s of
        None \<Rightarrow> None
      | Some (Inl e, s') \<Rightarrow> Some (Inl e, s')
      | Some (Inr x, s') \<Rightarrow> Some (eval n d x global_env s'))"

section \<open>The interpreter at start-up\<close>

text \<open>
  \<open>global_env = add_globals(Env())\<close> and \<open>macro_table = {_let: let}\<close>.  The names taken from
  the module \<open>math\<close> and the four constants of the device bindings are not part of the
  model; the other device bindings are host functions.
\<close>

definition globals :: "(string \<times> val) list" where
  "globals =
     [(''+'', Native OpAdd), (''-'', Native OpSub), (''*'', Native OpMul),
      (''/'', Native (Host ''/'')), (''not'', Native OpNot),
      (''>'', Native OpGt), (''<'', Native OpLt), (''>='', Native OpGe), (''<='', Native OpLe),
      (''='', Native OpEq), (''equal?'', Native OpEq), (''eq?'', Native (Host ''eq?'')),
      (''length'', Native Len), (''cons'', Native Cons), (''car'', Native Car),
      (''cdr'', Native Cdr), (''append'', Native OpAdd), (''list'', Native ListP),
      (''list?'', Native ListQ), (''null?'', Native NullQ), (''symbol?'', Native SymbolQ),
      (''boolean?'', Native BooleanQ), (''pair?'', Native PairQ),
      (''port?'', Native (Host ''port?'')), (''apply'', Native Apply), (''eval'', Native EvalP),
      (''load'', Native (Host ''load'')), (''call/cc'', Native Callcc),
      (''open-input-file'', Native (Host ''open-input-file'')),
      (''close-input-port'', Native (Host ''close-input-port'')),
      (''open-output-file'', Native (Host ''open-output-file'')),
      (''close-output-port'', Native (Host ''close-output-port'')),
      (''eof-object?'', Native EofObjectQ), (''read-char'', Native (Host ''read-char'')),
      (''read'', Native (Host ''read'')), (''write'', Native (Host ''write'')),
      (''display'', Native (Host ''display'')), (''newline'', Native (Host ''newline''))]"

definition startup :: state where
  "startup = \<lparr>frames = [globals], macro_table = [(''let'', Native LetMacro)], balls = 0\<rparr>"

text \<open>The text of the core builtins, evaluated when the module is loaded.\<close>

definition builtins :: string where
  "builtins = concat (map (\<lambda>l. l @ [nl])
     [''(begin'',
      [],
      ''(define-macro and (lambda args'',
      ''   (if (null? args) #t'',
      ''       (if (= (length args) 1) (car args)'',
      ''           '' @ [CHR 0x60] @ ''(if ,(car args) (and ,@(cdr args)) #f)))))'',
      [],
      ''(define-macro or (lambda args'',
      ''   (if (null? args) #f'',
      ''       (if (= (length args) 1) (car args)'',
      ''           '' @ [CHR 0x60] @ ''(if (not ,(car args)) (or ,@(cdr args)) #t)))))'',
      [],
      ''(define-macro when (lambda args'',
      ''  '' @ [CHR 0x60] @ ''(if ,(car args) (begin ,@(cdr args)))))'',
      [],
      ''(define-macro unless (lambda args'',
      ''  '' @ [CHR 0x60] @ ''(if (not ,(car args)) (begin ,@(cdr args)))))'',
      [],
      '';; More macros can also go here'',
      []]) @ '')''"

definition load_builtins :: "nat \<Rightarrow> nat \<Rightarrow> (val res) option" where
  "load_builtins n d = eval_text n d builtins startup"

text \<open>The state in which the interpreter meets its first input.\<close>

definition booted :: state where
  "booted = (case load_builtins 100 100 of Some (r, s) \<Rightarrow> s | None \<Rightarrow> startup)"

section \<open>Notions used to state the properties\<close>

text \<open>The environments reachable from \<open>e\<close> through \<open>outer\<close>, innermost first.\<close>

fun chain :: "env \<Rightarrow> env list" where
  "chain (Env i out) = Env i out # (case out of None \<Rightarrow> [] | Some e \<Rightarrow> chain e)"

text \<open>\<open>var in e.storage\<close>\<close>

definition binds :: "state \<Rightarrow> string \<Rightarrow> env \<Rightarrow> bool" where
  "binds s var e = (map_of (storage s (frame_of e)) var \<noteq> None)"

text \<open>The heads that \<open>eval\<close> treats as special forms.\<close>

definition special_heads :: "val list" where
  "special_heads = map Sym [''quote'', ''if'', ''cond'', ''set!'', ''define'', ''lambda'', ''begin'']"

text \<open>
  The procedure objects that loading the builtins puts into the macro table (lemma
  \<open>load_builtins_result\<close> below): the bodies are the expanded \<open>lambda\<close> bodies of the text
  \<open>builtins\<close>, with the quasiquotes turned into calls of \<open>cons\<close> and \<open>append\<close>.
\<close>

definition and_proc :: val where
  "and_proc =
     Procedure (Sym ''args'')
      (List [Sym ''if'', List [Sym ''null?'', Sym ''args''], Bool True,
         List [Sym ''if'', List [Sym ''='', List [Sym ''length'', Sym ''args''], Integer 1],
           List [Sym ''car'', Sym ''args''],
           List [Sym ''cons'', List [Sym ''quote'', Sym ''if''],
             List [Sym ''cons'', List [Sym ''car'', Sym ''args''],
               List [Sym ''cons'',
                 List [Sym ''cons'', List [Sym ''quote'', Sym ''and''],
                   List [Sym ''append'', List [Sym ''cdr'', Sym ''args''],
                     List [Sym ''quote'', List []]]],
                 List [Sym ''cons'', List [Sym ''quote'', Bool False],
                   List [Sym ''quote'', List []]]]]]]])
      global_env"

definition or_proc :: val where
  "or_proc =
     Procedure (Sym ''args'')
      (List [Sym ''if'', List [Sym ''null?'', Sym ''args''], Bool False,
         List [Sym ''if'', List [Sym ''='', List [Sym ''length'', Sym ''args''], Integer 1],
           List [Sym ''car'', Sym ''args''],
           List [Sym ''cons'', List [Sym ''quote'', Sym ''if''],
             List [Sym ''cons'',
               List [Sym ''cons'', List [Sym ''quote'', Sym ''not''],
                 List [Sym ''cons'', List [Sym ''car'', Sym ''args''],
                   List [Sym ''quote'', List []]]],
               List [Sym ''cons'',
                 List [Sym ''cons'', List [Sym ''quote'', Sym ''or''],
                   List [Sym ''append'', List [Sym ''cdr'', Sym ''args''],
                     List [Sym ''quote'', List []]]],
                 List [Sym ''cons'', List [Sym ''quote'', Bool True],
                   List [Sym ''quote'', List []]]]]]]])
      global_env"

definition when_proc :: val where
  "when_proc =
     Procedure (Sym ''args'')
      (List [Sym ''cons'', List [Sym ''quote'', Sym ''if''],
         List [Sym ''cons'', List [Sym ''car'', Sym ''args''],
           List [Sym ''cons'',
             List [Sym ''cons'', List [Sym ''quote'', Sym ''begin''],
               List [Sym ''append'', List [Sym ''cdr'', Sym ''args''],
                 List [Sym ''quote'', List []]]],
             List [Sym ''quote'', List []]]]])
      global_env"

definition unless_proc :: val where
  "unless_proc =
     Procedure (Sym ''args'')
      (List [Sym ''cons'', List [Sym ''quote'', Sym ''if''],
         List [Sym ''cons'',
           List [Sym ''cons'', List [Sym ''quote'', Sym ''not''],
             List [Sym ''cons'', List [Sym ''car'', Sym ''args''],
               List [Sym ''quote'', List []]]],
           List [Sym ''cons'',
             List [Sym ''cons'', List [Sym ''quote'', Sym ''begin''],
               List [Sym ''append'', List [Sym ''cdr'', Sym ''args''],
                 List [Sym ''quote'', List []]]],
             List [Sym ''quote'', List []]]]])
      global_env"

definition builtin_macros :: "(string \<times> val) list" where
  "builtin_macros =
     [(''let'', Native LetMacro), (''and'', and_proc), (''or'', or_proc),
      (''when'', when_proc), (''unless'', unless_proc)]"

text \<open>
  A counting loop, \<open>(define (loop n) (if (= n 0) 0 (loop (- n 1))))\<close>: its text, the state
  after its definition has been evaluated, and (for the lemmas) the body and the procedure
  object that the definition binds to \<open>loop\<close>.
\<close>

definition loop_text :: string where
  "loop_text = ''(define (loop n) (if (= n 0) 0 (loop (- n 1))))''"

definition with_loop :: state where
  "with_loop = (case eval_text 100 100 loop_text booted of Some (r, s) \<Rightarrow> s | None \<Rightarrow> booted)"

definition loop_body :: val where
  "loop_body =
     List [Sym ''if'', List [Sym ''='', Sym ''n'', Integer 0], Integer 0,
           List [Sym ''loop'', List [Sym ''-'', Sym ''n'', Integer 1]]]"

definition loop_proc :: val where
  "loop_proc = Procedure (List [Sym ''n'']) loop_body global_env"

definition loop_globals :: "(string \<times> val) list" where
  "loop_globals = globals @ [(''loop'', loop_proc)]"

text \<open>
  Answers that do not come from an exhausted budget, and the order "the second
  computation gives every such answer of the first".
\<close>

definition ok :: "error + 'a \<Rightarrow> bool" where
  "ok r = (r \<noteq> Inl RecursionDepth \<and> r \<noteq> Inl LoopFuel)"

definition le_comp :: "(state \<Rightarrow> 'a res) \<Rightarrow> (state \<Rightarrow> 'a res) \<Rightarrow> bool" where
  "le_comp m m' = (\<forall>s r s'. m s = (r, s') \<longrightarrow> ok r \<longrightarrow> m' s = (r, s'))"

definition le_rec :: "(call \<Rightarrow> state \<Rightarrow> val res) \<Rightarrow> (call \<Rightarrow> state \<Rightarrow> val res) \<Rightarrow> bool" where
  "le_rec rec rec' = (\<forall>c. le_comp (rec c) (rec' c))"

section \<open>Environments: lookup and binding\<close>

lemma find_env_chain:
  "find_env s e var =
     (case List.find (binds s var) (chain e) of
        None \<Rightarrow> Inl (LookupError var)
      | Some e' \<Rightarrow> Inr e')"
  by (induction s e var rule: find_env.induct) (auto simp: binds_def split: option.splits)

lemma eval_symbol:
  "eval (Suc n) (Suc d) (Sym name) e s =
     (case List.find (binds s name) (chain e) of
        None \<Rightarrow> (Inl (LookupError name), s)
      | Some e' \<Rightarrow>
          (case map_of (storage s (frame_of e')) name of
             Some v \<Rightarrow> (Inr v, s)
           | None \<Rightarrow> (Inl (LookupError name), s)))"
  by (simp add: eval_def eval_step_def text_of_def is_symbol_def lift_def lookup_def
      find_env_chain split: option.splits sum.splits)

text \<open>
  C9.  A symbol that no environment of the chain binds: \<open>find\<close> raises the lookup error with
  the symbol's name, and so does the evaluation of the bare symbol.  When some environment
  of the chain binds the name, \<open>find\<close> returns the first one, counted from the innermost.
\<close>

theorem unbound_variable_and_nearest_binding:
  "((\<forall>e' \<in> set (chain e). \<not> binds s name e') \<longrightarrow>
       find_env s e name = Inl (LookupError name) \<and>
       eval (Suc n) (Suc d) (Sym name) e s = (Inl (LookupError name), s))
   \<and> (\<forall>i. i < length (chain e) \<and> binds s name (chain e ! i)
            \<and> (\<forall>j<i. \<not> binds s name (chain e ! j))
          \<longrightarrow> find_env s e name = Inr (chain e ! i))"
proof (intro conjI impI allI)
  assume none: "\<forall>e' \<in> set (chain e). \<not> binds s name e'"
  then have "List.find (binds s name) (chain e) = None"
    by (simp add: find_None_iff)
  then show "find_env s e name = Inl (LookupError name)"
    and "eval (Suc n) (Suc d) (Sym name) e s = (Inl (LookupError name), s)"
    by (simp_all add: find_env_chain eval_symbol)
next
  fix i
  assume "i < length (chain e) \<and> binds s name (chain e ! i)
            \<and> (\<forall>j<i. \<not> binds s name (chain e ! j))"
  then have "List.find (binds s name) (chain e) = Some (chain e ! i)"
    by (auto simp: find_Some_iff)
  then show "find_env s e name = Inr (chain e ! i)"
    by (simp add: find_env_chain)
qed

theorem unbound_variable_and_nearest_binding_witness:
  "eval 1 1 (Sym ''x'') (Env 1 (Some (Env 0 None)))
       \<lparr>frames = [[(''y'', Integer 1)], [(''z'', Integer 2)]], macro_table = [], balls = 0\<rparr>
     = (Inl (LookupError ''x''),
        \<lparr>frames = [[(''y'', Integer 1)], [(''z'', Integer 2)]], macro_table = [], balls = 0\<rparr>)
   \<and> find_env \<lparr>frames = [[(''y'', Integer 1)], [(''z'', Integer 2)]], macro_table = [], balls = 0\<rparr>
        (Env 1 (Some (Env 0 None))) ''y'' = Inr (Env 0 None)"
  using unbound_variable_and_nearest_binding
    [of "Env 1 (Some (Env 0 None))"
        "\<lparr>frames = [[(''y'', Integer 1)], [(''z'', Integer 2)]], macro_table = [], balls = 0\<rparr>"
        "''x''" 0 0]
    unbound_variable_and_nearest_binding
    [of "Env 1 (Some (Env 0 None))"
        "\<lparr>frames = [[(''y'', Integer 1)], [(''z'', Integer 2)]], macro_table = [], balls = 0\<rparr>"
        "''y''" 0 0, THEN conjunct2, rule_format, of 1]
  by (simp add: binds_def storage_def)

lemma Env_init_fixed:
  "length args \<noteq> length ps \<Longrightarrow> Env_init (List ps) args outer s = (Inl TypeError, s)"
  by (simp add: Env_init_def text_of_def raise_def)

lemma Env_init_variadic:
  "Env_init (Sym p) args outer s =
     (Inr (Env (length (frames s)) outer), s\<lparr>frames := frames s @ [[(p, List args)]]\<rparr>)"
  by (simp add: Env_init_def text_of_def is_symbol_def new_env_def)

lemma eval_step_application:
  assumes "f \<notin> set special_heads"
    and "each (\<lambda>exp. rec (CEval exp env0)) (f # es) s = (Inr (Procedure parms body env # args), s1)"
  shows "eval_step rec (List (f # es)) env0 s =
           (case Env_init parms args (Some env) s1 of
              (Inl e, s2) \<Rightarrow> (Inl e, s2)
            | (Inr e', s2) \<Rightarrow> (Inr (Continue body e'), s2))"
  using assms
  by (simp add: eval_step_def special_heads_def text_of_def then_do_def ret_def
      split: prod.splits sum.splits)

text \<open>
  C5.  A closure with the parameter list \<open>(a b)\<close> applied to one or to three arguments
  raises the arity error (\<open>TypeError\<close>), when called as a Python object and when applied by
  the loop of \<open>eval\<close>.  A closure with the single parameter symbol \<open>p\<close> accepts every
  argument list: the call goes on with the body in a new environment in which \<open>p\<close> is
  bound to the list of all arguments.
\<close>

theorem closure_arity:
  "(length args = 1 \<or> length args = 3 \<longrightarrow>
      call_body rec (Procedure (List [Sym a, Sym b]) body env) args s = (Inl TypeError, s)
      \<and> (f \<notin> set special_heads
           \<and> each (\<lambda>exp. rec (CEval exp env0)) (f # es) s
               = (Inr (Procedure (List [Sym a, Sym b]) body env # args), s1)
          \<longrightarrow> eval_step rec (List (f # es)) env0 s = (Inl TypeError, s1)))
   \<and> call_body rec (Procedure (Sym p) body env) args s
       = rec (CEval body (Env (length (frames s)) (Some env)))
             (s\<lparr>frames := frames s @ [[(p, List args)]]\<rparr>)
   \<and> (f \<notin> set special_heads
        \<and> each (\<lambda>exp. rec (CEval exp env0)) (f # es) s
            = (Inr (Procedure (Sym p) body env # args), s1)
       \<longrightarrow> eval_step rec (List (f # es)) env0 s
            = (Inr (Continue body (Env (length (frames s1)) (Some env))),
               s1\<lparr>frames := frames s1 @ [[(p, List args)]]\<rparr>))
   \<and> lookup (s\<lparr>frames := frames s @ [[(p, List args)]]\<rparr>)
        (Env (length (frames s)) (Some env)) p = Inr (List args)"
proof (intro conjI impI)
  assume len: "length args = 1 \<or> length args = 3"
  then have ne: "length args \<noteq> length [Sym a, Sym b]"
    by auto
  show "call_body rec (Procedure (List [Sym a, Sym b]) body env) args s = (Inl TypeError, s)"
    by (simp add: call_body_def then_do_def Env_init_fixed [OF ne])
  assume "f \<notin> set special_heads
           \<and> each (\<lambda>exp. rec (CEval exp env0)) (f # es) s
               = (Inr (Procedure (List [Sym a, Sym b]) body env # args), s1)"
  then show "eval_step rec (List (f # es)) env0 s = (Inl TypeError, s1)"
    by (simp add: eval_step_application Env_init_fixed [OF ne])
next
  show "call_body rec (Procedure (Sym p) body env) args s
          = rec (CEval body (Env (length (frames s)) (Some env)))
                (s\<lparr>frames := frames s @ [[(p, List args)]]\<rparr>)"
    by (simp add: call_body_def then_do_def Env_init_variadic)
next
  assume "f \<notin> set special_heads
           \<and> each (\<lambda>exp. rec (CEval exp env0)) (f # es) s
               = (Inr (Procedure (Sym p) body env # args), s1)"
  then show "eval_step rec (List (f # es)) env0 s
               = (Inr (Continue body (Env (length (frames s1)) (Some env))),
                  s1\<lparr>frames := frames s1 @ [[(p, List args)]]\<rparr>)"
    by (simp add: eval_step_application Env_init_variadic)
next
  show "lookup (s\<lparr>frames := frames s @ [[(p, List args)]]\<rparr>)
          (Env (length (frames s)) (Some env)) p = Inr (List args)"
    by (simp add: lookup_def storage_def)
qed

theorem closure_arity_witness:
  "call_body (run 0 0) (Procedure (List [Sym ''a'', Sym ''b'']) (Sym ''a'') global_env)
       [Integer 1] startup = (Inl TypeError, startup)
   \<and> lookup (startup\<lparr>frames := frames startup @ [[(''p'', List [Integer 1])]]\<rparr>)
        (Env (length (frames startup)) (Some global_env)) ''p'' = Inr (List [Integer 1])"
  using closure_arity [where args = "[Integer 1]" and rec = "run 0 0" and a = "''a''"
      and b = "''b''" and body = "Sym ''a''" and env = global_env and s = startup
      and p = "''p''"]
  by simp

section \<open>Reader and printer\<close>

text \<open>
  C7.  Two raw tokens with a tab between them come out as one token that contains the tab;
  with a space or a newline between them they come out as two tokens.
\<close>

theorem tab_between_tokens:
  "next_token (InPort (''a'' @ [tab] @ ''b''))
     = Some (Tok (''a'' @ [tab] @ ''b''), \<lparr>afile = [], line = []\<rparr>)
   \<and> next_token \<lparr>afile = [], line = []\<rparr> = Some (EOF, \<lparr>afile = [], line = []\<rparr>)
   \<and> next_token (InPort ''a b'') = Some (Tok ''a'', \<lparr>afile = [], line = '' b''\<rparr>)
   \<and> next_token \<lparr>afile = [], line = '' b''\<rparr> = Some (Tok ''b'', \<lparr>afile = [], line = []\<rparr>)
   \<and> next_token (InPort (''a'' @ [nl] @ ''b'')) = Some (Tok ''a'', \<lparr>afile = ''b'', line = []\<rparr>)
   \<and> next_token \<lparr>afile = ''b'', line = []\<rparr> = Some (Tok ''b'', \<lparr>afile = [], line = []\<rparr>)"
  by code_simp

text \<open>
  C4.  The string literal \<open>"a\"b"\<close> is read as the four characters \<open>a\"b\<close>; \<open>to_string\<close>
  prints them as \<open>"a\\"b"\<close>; reading that text gives the three characters \<open>a\\\<close>, another
  string, and leaves \<open>b"\<close> in the line.
\<close>

theorem escaped_quote_round_trip:
  "read 5 (InPort ([dq] @ ''a'' @ [bsl, dq] @ ''b'' @ [dq]))
     = Some (Inr (Str (''a'' @ [bsl, dq] @ ''b''), \<lparr>afile = [], line = []\<rparr>))
   \<and> to_string (Str (''a'' @ [bsl, dq] @ ''b'')) = [dq] @ ''a'' @ [bsl, bsl, dq] @ ''b'' @ [dq]
   \<and> read 5 (InPort (to_string (Str (''a'' @ [bsl, dq] @ ''b''))))
     = Some (Inr (Str (''a'' @ [bsl, bsl]), \<lparr>afile = [], line = ''b'' @ [dq]\<rparr>))
   \<and> Str (''a'' @ [bsl, bsl]) \<noteq> Str (''a'' @ [bsl, dq] @ ''b'')"
  by code_simp

section \<open>Loading the builtins\<close>

lemma load_builtins_result:
  "load_builtins 100 100 = Some (Inr NoneV, startup\<lparr>macro_table := builtin_macros\<rparr>)"
  by code_simp

lemma booted_eq: "booted = startup\<lparr>macro_table := builtin_macros\<rparr>"
  by (simp add: booted_def load_builtins_result)

section \<open>Quoting\<close>

lemma quote_example:
  "map_option fst (eval_text 100 100 ''(quote (a b c))'' booted)
     = Some (Inr (List [Sym ''a'', Sym ''b'', Sym ''c'']))"
  unfolding booted_eq by code_simp

lemma quasiquote_example:
  "map_option fst (eval_text 100 100 (CHR 0x60 # ''(1 ,(+ 1 1) ,@(list 3 4))'') booted)
     = Some (Inr (List [Integer 1, Integer 2, Integer 3, Integer 4]))"
  unfolding booted_eq by code_simp

lemma quasiquote_expansion_example:
  "map_option fst (parse 100 100 (CHR 0x60 # ''(1 ,(+ 1 1) ,@(list 3 4))'') booted)
     = Some (Inr (List [Sym ''cons'', List [Sym ''quote'', Integer 1],
                    List [Sym ''cons'', List [Sym ''+'', Integer 1, Integer 1],
                      List [Sym ''append'', List [Sym ''list'', Integer 3, Integer 4],
                        List [Sym ''quote'', List []]]]]))"
  unfolding booted_eq by code_simp

lemma eval_quote: "eval (Suc n) (Suc d) (List [Sym ''quote'', x]) env s = (Inr x, s)"
  by (simp add: eval_def eval_step_def text_of_def ret_def)

lemma expand_quasiquote_atom: "\<not> is_pair x \<Longrightarrow> expand_quasiquote x = Inr (List [Sym ''quote'', x])"
  by (cases x rule: expand_quasiquote.cases) (simp_all add: is_pair_def is_list_def)

lemma expand_quasiquote_unquote: "expand_quasiquote (List [Sym ''unquote'', x]) = Inr x"
  by simp

lemma expand_quasiquote_splice:
  "expand_quasiquote (List (List [Sym ''unquote-splicing'', x] # t))
     = map_sum id (\<lambda>r. List [Sym ''append'', x, r]) (expand_quasiquote (List t))"
  by (simp add: is_pair_def is_list_def elems_def split: sum.splits)

text \<open>
  C3.  \<open>(quote (a b c))\<close> evaluates to the list of the three symbols, and \<open>(quote x)\<close> to \<open>x\<close>
  as it stands for every \<open>x\<close>.  The quasiquote form evaluates to \<open>(1 2 3 4)\<close>: the engine
  turns an atom into a quotation, \<open>(unquote x)\<close> into \<open>x\<close> itself, to be evaluated, and an
  element \<open>(unquote-splicing x)\<close> into an \<open>append\<close> of \<open>x\<close> and the expansion of the rest.
\<close>

theorem quote_and_quasiquote:
  "map_option fst (eval_text 100 100 ''(quote (a b c))'' booted)
     = Some (Inr (List [Sym ''a'', Sym ''b'', Sym ''c'']))
   \<and> eval (Suc n) (Suc d) (List [Sym ''quote'', x]) env s = (Inr x, s)
   \<and> map_option fst (eval_text 100 100 (CHR 0x60 # ''(1 ,(+ 1 1) ,@(list 3 4))'') booted)
     = Some (Inr (List [Integer 1, Integer 2, Integer 3, Integer 4]))
   \<and> expand_quasiquote (List [Sym ''unquote'', x]) = Inr x
   \<and> expand_quasiquote (List (List [Sym ''unquote-splicing'', x] # t))
     = map_sum id (\<lambda>r. List [Sym ''append'', x, r]) (expand_quasiquote (List t))
   \<and> (\<not> is_pair x \<longrightarrow> expand_quasiquote x = Inr (List [Sym ''quote'', x]))"
  using quote_example quasiquote_example eval_quote expand_quasiquote_atom
    expand_quasiquote_unquote expand_quasiquote_splice
  by blast

theorem quote_and_quasiquote_witness:
  "\<not> is_pair (Integer 1) \<and> expand_quasiquote (Integer 1) = Inr (List [Sym ''quote'', Integer 1])"
  using quote_and_quasiquote [of 0 0 "Integer 1" global_env startup "[]"]
  by (simp add: is_pair_def is_list_def)

section \<open>The macros \<open>and\<close> and \<open>or\<close> on examples\<close>

lemma and_expansion_example:
  "map_option fst (parse 100 100 ''(and 1 2 3)'' booted)
     = Some (Inr (List [Sym ''if'', Integer 1,
                    List [Sym ''if'', Integer 2, Integer 3, Bool False], Bool False]))"
  unfolding booted_eq by code_simp

lemma and_example:
  "map_option fst (eval_text 100 100 ''(and 1 2 3)'' booted) = Some (Inr (Integer 3))"
  unfolding booted_eq by code_simp

lemma and_empty_example:
  "map_option fst (eval_text 100 100 ''(and)'' booted) = Some (Inr (Bool True))"
  unfolding booted_eq by code_simp

lemma or_example:
  "map_option fst (eval_text 100 100 ''(or #f #f)'' booted) = Some (Inr (Bool False))"
  unfolding booted_eq by code_simp

text \<open>
  C8.  In the state that loading the builtins leaves, \<open>(and 1 2 3)\<close> expands to
  \<open>(if 1 (if 2 3 #f) #f)\<close> and evaluates to \<open>3\<close>, \<open>(and)\<close> evaluates to \<open>#t\<close> and
  \<open>(or #f #f)\<close> to \<open>#f\<close>.
\<close>

theorem and_or_examples:
  "load_builtins 100 100 = Some (Inr NoneV, booted)
   \<and> map_option fst (parse 100 100 ''(and 1 2 3)'' booted)
       = Some (Inr (List [Sym ''if'', Integer 1,
                      List [Sym ''if'', Integer 2, Integer 3, Bool False], Bool False]))
   \<and> map_option fst (eval_text 100 100 ''(and 1 2 3)'' booted) = Some (Inr (Integer 3))
   \<and> map_option fst (eval_text 100 100 ''(and)'' booted) = Some (Inr (Bool True))
   \<and> map_option fst (eval_text 100 100 ''(or #f #f)'' booted) = Some (Inr (Bool False))"
  using load_builtins_result booted_eq and_expansion_example and_example and_empty_example
    or_example
  by simp

section \<open>Escape continuations\<close>

lemma callcc_handler:
  "rec (CCall proc [Throw (balls s)]) (s\<lparr>balls := Suc (balls s)\<rparr>) = (Inl (Escape w v), s')
   \<Longrightarrow> callcc rec proc s = (if w = balls s then (Inr v, s') else (Inl (Escape w v), s'))"
  by (simp add: callcc_def Let_def)

lemma throw_raises: "call_body rec (Throw b) [v] s = (Inl (Escape b v), s)"
  by (simp add: call_body_def raise_def)

lemma each_abort:
  "each f pre s = (Inr vs, s1) \<Longrightarrow> f x s1 = (Inl e, s2)
   \<Longrightarrow> each f (pre @ x # post) s = (Inl e, s2)"
proof (induction pre arbitrary: s vs)
  case Nil
  then show ?case by (simp add: then_do_def ret_def)
next
  case (Cons p pre)
  then show ?case
    by (auto simp: then_do_def ret_def split: prod.splits sum.splits)
qed

lemma eval_step_abort:
  "f \<notin> set special_heads \<Longrightarrow> each (\<lambda>exp. rec (CEval exp env)) (f # es) s = (Inl e, s2)
   \<Longrightarrow> eval_step rec (List (f # es)) env s = (Inl e, s2)"
  by (simp add: eval_step_def special_heads_def text_of_def then_do_def ret_def
      split: prod.splits sum.splits)

lemma eval_loop_abort:
  "eval_step rec x env s = (Inl e, s2) \<Longrightarrow> eval_loop rec (Suc n) x env s = (Inl e, s2)"
  by simp

lemma callcc_example:
  "map_option fst (eval_text 100 100 ''(call/cc (lambda (k) (+ 1 (k 42))))'' booted)
     = Some (Inr (Integer 42))"
  unfolding booted_eq by code_simp

lemma callcc_nested_example:
  "map_option fst
     (eval_text 100 100 ''(call/cc (lambda (k1) (+ 1 (call/cc (lambda (k2) (+ 10 (k1 5)))))))''
        booted)
     = Some (Inr (Integer 5))"
  unfolding booted_eq by code_simp

lemma callcc_apply_example:
  "map_option fst (eval_text 100 100 ''(call/cc (lambda (k) (+ 1 (apply k (list 42)))))'' booted)
     = Some (Inr (Integer 42))"
  unfolding booted_eq by code_simp

text \<open>
  C2.  \<open>(call/cc (lambda (k) (+ 1 (k 42))))\<close> evaluates to \<open>42\<close>.  The escape procedure raises
  the ball of its \<open>callcc\<close> with the value; an application in which the evaluation of an
  element raises the ball raises it as well, without applying anything; and \<open>callcc\<close>
  returns the value when the ball that reaches it is its own and raises the ball again
  when it belongs to another call of \<open>callcc\<close>.  So the escape also works through a host
  function (\<open>apply\<close>), and the inner of two nested \<open>call/cc\<close> lets the ball of the outer
  one pass.
\<close>

theorem escape_continuation:
  "map_option fst (eval_text 100 100 ''(call/cc (lambda (k) (+ 1 (k 42))))'' booted)
     = Some (Inr (Integer 42))
   \<and> map_option fst (eval_text 100 100 ''(call/cc (lambda (k) (+ 1 (apply k (list 42)))))'' booted)
     = Some (Inr (Integer 42))
   \<and> map_option fst
       (eval_text 100 100 ''(call/cc (lambda (k1) (+ 1 (call/cc (lambda (k2) (+ 10 (k1 5)))))))''
          booted)
     = Some (Inr (Integer 5))
   \<and> call_body rec (Throw b) [v] s = (Inl (Escape b v), s)
   \<and> (f \<notin> set special_heads \<and> f # es = pre @ x # post
        \<and> each (\<lambda>exp. rec (CEval exp env)) pre s = (Inr vs, sa)
        \<and> rec (CEval x env) sa = (Inl (Escape b v), sb)
       \<longrightarrow> eval_loop rec (Suc n) (List (f # es)) env s = (Inl (Escape b v), sb))
   \<and> (rec (CCall proc [Throw (balls s)]) (s\<lparr>balls := Suc (balls s)\<rparr>) = (Inl (Escape w v), s')
       \<longrightarrow> callcc rec proc s = (if w = balls s then (Inr v, s') else (Inl (Escape w v), s')))"
proof (intro conjI impI)
  show "map_option fst (eval_text 100 100 ''(call/cc (lambda (k) (+ 1 (k 42))))'' booted)
     = Some (Inr (Integer 42))"
    by (rule callcc_example)
  show "map_option fst
          (eval_text 100 100 ''(call/cc (lambda (k) (+ 1 (apply k (list 42)))))'' booted)
     = Some (Inr (Integer 42))"
    by (rule callcc_apply_example)
  show "map_option fst
       (eval_text 100 100 ''(call/cc (lambda (k1) (+ 1 (call/cc (lambda (k2) (+ 10 (k1 5)))))))''
          booted)
     = Some (Inr (Integer 5))"
    by (rule callcc_nested_example)
  show "call_body rec (Throw b) [v] s = (Inl (Escape b v), s)"
    by (rule throw_raises)
next
  assume a: "f \<notin> set special_heads \<and> f # es = pre @ x # post
        \<and> each (\<lambda>exp. rec (CEval exp env)) pre s = (Inr vs, sa)
        \<and> rec (CEval x env) sa = (Inl (Escape b v), sb)"
  then have "each (\<lambda>exp. rec (CEval exp env)) (f # es) s = (Inl (Escape b v), sb)"
    using each_abort [of "\<lambda>exp. rec (CEval exp env)" pre s vs sa x "Escape b v" sb post]
    by simp
  with a show "eval_loop rec (Suc n) (List (f # es)) env s = (Inl (Escape b v), sb)"
    using eval_step_abort eval_loop_abort by blast
next
  assume "rec (CCall proc [Throw (balls s)]) (s\<lparr>balls := Suc (balls s)\<rparr>)
            = (Inl (Escape w v), s')"
  then show "callcc rec proc s = (if w = balls s then (Inr v, s') else (Inl (Escape w v), s'))"
    by (rule callcc_handler)
qed

theorem escape_continuation_witness:
  "callcc (\<lambda>c s. (Inl (Escape 0 (Integer 42)), s)) (Native Car) startup
     = (Inr (Integer 42), startup\<lparr>balls := Suc 0\<rparr>)
   \<and> eval_loop (\<lambda>c s. (Inl (Escape 0 (Integer 42)), s)) (Suc 0)
        (List [Sym ''k'', Integer 42]) global_env startup
     = (Inl (Escape 0 (Integer 42)), startup)"
  using escape_continuation
    [where rec = "\<lambda>c s. (Inl (Escape 0 (Integer 42)), s)" and proc = "Native Car"
       and s = startup and w = 0 and v = "Integer 42" and s' = "startup\<lparr>balls := Suc 0\<rparr>"
       and f = "Sym ''k''" and es = "[Integer 42]" and pre = "[]" and x = "Sym ''k''"
       and post = "[Integer 42]" and env = global_env and vs = "[]" and sa = startup
       and b = 0 and sb = startup and n = 0]
  by (simp add: startup_def special_heads_def ret_def)

section \<open>Macro definitions\<close>

lemma expand_define_macro:
  "expand n (Suc d) (List [Sym ''define-macro'', Sym v, e]) toplevel s =
     (case expand n d e False s of
        (Inl err, s1) \<Rightarrow> (Inl err, s1)
      | (Inr exp, s1) \<Rightarrow>
          if \<not> toplevel then
            (Inl (SyntaxError (to_string (List [Sym ''define-macro'', Sym v, e])
                    @ '': define-macro only allowed at top level'')), s1)
          else
            (case eval n d exp global_env s1 of
               (Inl err, s2) \<Rightarrow> (Inl err, s2)
             | (Inr proc, s2) \<Rightarrow>
                 if \<not> callable proc then
                   (Inl (SyntaxError (to_string (List [Sym ''define-macro'', Sym v, e])
                           @ '': macro must be a procedure'')), s2)
                 else (Inr NoneV, s2\<lparr>macro_table := AList.update v proc (macro_table s2)\<rparr>)))"
  by (simp add: expand_def eval_def expand_body_def expand_define_def require_def
      require_pure_def lift_def then_do_def ret_def is_list_def is_symbol_def text_of_def
      Let_def split: prod.splits sum.splits)

lemma eval_none: "eval (Suc n) (Suc d) NoneV env s = (Inr NoneV, s)"
  by (simp add: eval_def eval_step_def text_of_def ret_def)

lemma expand_zero: "expand n 0 x t s = (Inl RecursionDepth, s)"
  by (simp add: expand_def)

lemma define_macro_example:
  "map_option (\<lambda>(r, s). (r, map_of (macro_table s) ''m''))
     (eval_text 100 100 ''(define-macro m (lambda args 1))'' booted)
   = Some (Inr NoneV, Some (Procedure (Sym ''args'') (Integer 1) global_env))"
  unfolding booted_eq by code_simp

lemma define_macro_inner_example:
  "map_option fst (eval_text 100 100 ''(list (define-macro m (lambda args 1)))'' booted)
   = Some (Inl (SyntaxError
        ''(define-macro m (lambda args 1)): define-macro only allowed at top level''))"
  unfolding booted_eq by code_simp

text \<open>
  C6.  When the expansion of \<open>(define-macro v e)\<close> succeeds, the top-level flag is set, the
  result is \<open>None\<close>, and the new state is the one in which \<open>e\<close> has been expanded, the
  expansion evaluated in the global environment to a callable object, and that object
  stored under \<open>v\<close> in the macro table.  Without the flag the expansion raises the syntax
  error once \<open>e\<close> itself has been expanded (the flag is tested after that).  The result
  \<open>None\<close> evaluates to itself and leaves the state as it is.
\<close>

theorem define_macro_top_level:
  "(expand n d (List [Sym ''define-macro'', Sym v, e]) toplevel s = (Inr r, s') \<longrightarrow>
      toplevel \<and> r = NoneV
      \<and> (\<exists>exp s1 proc s2.
            expand n (d - 1) e False s = (Inr exp, s1)
            \<and> eval n (d - 1) exp global_env s1 = (Inr proc, s2)
            \<and> callable proc
            \<and> s' = s2\<lparr>macro_table := AList.update v proc (macro_table s2)\<rparr>
            \<and> map_of (macro_table s') v = Some proc))
   \<and> (\<not> toplevel \<and> expand n d e False s = (Inr exp, s1) \<longrightarrow>
        expand n (Suc d) (List [Sym ''define-macro'', Sym v, e]) toplevel s
          = (Inl (SyntaxError (to_string (List [Sym ''define-macro'', Sym v, e])
                    @ '': define-macro only allowed at top level'')), s1))
   \<and> eval (Suc n) (Suc d) NoneV env s = (Inr NoneV, s)"
proof (intro conjI impI)
  assume a: "expand n d (List [Sym ''define-macro'', Sym v, e]) toplevel s = (Inr r, s')"
  then obtain d' where d: "d = Suc d'"
    by (cases d) (simp_all add: expand_zero)
  from a show "toplevel"
    unfolding d expand_define_macro by (auto split: prod.splits sum.splits if_splits)
  from a show "r = NoneV"
    unfolding d expand_define_macro by (auto split: prod.splits sum.splits if_splits)
  from a show "\<exists>exp s1 proc s2.
            expand n (d - 1) e False s = (Inr exp, s1)
            \<and> eval n (d - 1) exp global_env s1 = (Inr proc, s2)
            \<and> callable proc
            \<and> s' = s2\<lparr>macro_table := AList.update v proc (macro_table s2)\<rparr>
            \<and> map_of (macro_table s') v = Some proc"
    unfolding d expand_define_macro
    by (auto split: prod.splits sum.splits if_splits simp: update_conv')
next
  assume "\<not> toplevel \<and> expand n d e False s = (Inr exp, s1)"
  then show "expand n (Suc d) (List [Sym ''define-macro'', Sym v, e]) toplevel s
          = (Inl (SyntaxError (to_string (List [Sym ''define-macro'', Sym v, e])
                    @ '': define-macro only allowed at top level'')), s1)"
    by (simp add: expand_define_macro)
next
  show "eval (Suc n) (Suc d) NoneV env s = (Inr NoneV, s)"
    by (rule eval_none)
qed

theorem define_macro_top_level_witness:
  "expand 1 2 (List [Sym ''define-macro'', Sym ''m'', Sym ''car'']) True startup
     = (Inr NoneV, startup\<lparr>macro_table := [(''let'', Native LetMacro), (''m'', Native Car)]\<rparr>)
   \<and> eval 1 1 (Sym ''car'') global_env startup = (Inr (Native Car), startup)
   \<and> expand 1 2 (List [Sym ''define-macro'', Sym ''m'', Sym ''car'']) False startup
     = (Inl (SyntaxError ''(define-macro m car): define-macro only allowed at top level''),
        startup)"
proof -
  have a: "expand 1 2 (List [Sym ''define-macro'', Sym ''m'', Sym ''car'']) True startup
     = (Inr NoneV, startup\<lparr>macro_table := [(''let'', Native LetMacro), (''m'', Native Car)]\<rparr>)"
    by code_simp
  have b: "expand 1 1 (Sym ''car'') False startup = (Inr (Sym ''car''), startup)"
    by code_simp
  have c: "eval 1 1 (Sym ''car'') global_env startup = (Inr (Native Car), startup)"
    by code_simp
  have d: "to_string (List [Sym ''define-macro'', Sym ''m'', Sym ''car'']) = ''(define-macro m car)''"
    by code_simp
  from define_macro_top_level
    [of 1 2 "''m''" "Sym ''car''" True startup NoneV
        "startup\<lparr>macro_table := [(''let'', Native LetMacro), (''m'', Native Car)]\<rparr>"]
    a b c
  have "True" by simp
  from define_macro_top_level
    [of 1 "Suc 0" "''m''" "Sym ''car''" False startup _ _ "Sym ''car''" startup]
    b d
  have "expand 1 2 (List [Sym ''define-macro'', Sym ''m'', Sym ''car'']) False startup
     = (Inl (SyntaxError ''(define-macro m car): define-macro only allowed at top level''),
        startup)"
    by (simp add: numeral_2_eq_2)
  with a c show ?thesis by simp
qed

section \<open>Tail calls\<close>

lemma define_loop:
  "eval_text 100 100 loop_text booted
     = Some (Inr NoneV, booted\<lparr>frames := [loop_globals]\<rparr>)"
  unfolding booted_eq by code_simp

lemma with_loop_eq: "with_loop = booted\<lparr>frames := [loop_globals]\<rparr>"
  by (simp add: with_loop_def define_loop)

lemma run_symbol: "run (Suc n) (Suc d) (CEval (Sym v) e) s = (lookup s e v, s)"
  by (cases "lookup s e v") (simp_all add: eval_step_def text_of_def is_symbol_def lift_def)

lemma run_integer: "run (Suc n) (Suc d) (CEval (Integer i) e) s = (Inr (Integer i), s)"
  by (simp add: eval_step_def text_of_def ret_def)

lemma loop_globals_lookup:
  "map_of loop_globals ''n'' = None"
  "map_of loop_globals ''='' = Some (Native OpEq)"
  "map_of loop_globals ''-'' = Some (Native OpSub)"
  "map_of loop_globals ''loop'' = Some loop_proc"
  by (simp_all add: loop_globals_def globals_def)

lemma loop_lookups:
  assumes "storage s 0 = loop_globals" "storage s i = [(''n'', v)]" "i \<noteq> 0"
  shows "lookup s (Env i (Some global_env)) ''n'' = Inr v"
    and "lookup s (Env i (Some global_env)) ''='' = Inr (Native OpEq)"
    and "lookup s (Env i (Some global_env)) ''-'' = Inr (Native OpSub)"
    and "lookup s (Env i (Some global_env)) ''loop'' = Inr loop_proc"
  using assms by (simp_all add: lookup_def global_env_def loop_globals_lookup)

lemma loop_test:
  assumes "storage s 0 = loop_globals" "storage s i = [(''n'', Integer k)]" "i \<noteq> 0"
  shows "run (Suc n) (Suc (Suc d)) (CEval (List [Sym ''='', Sym ''n'', Integer 0]) (Env i (Some global_env))) s
           = (Inr (Bool (k = 0)), s)"
  using assms
  by (simp add: eval_step_def text_of_def then_do_def ret_def run_symbol run_integer loop_lookups
      call_body_def apply_prim_def binary_def num_of_def lift_def is_symbol_def raise_def)

lemma loop_decrement:
  assumes "storage s 0 = loop_globals" "storage s i = [(''n'', Integer k)]" "i \<noteq> 0"
  shows "run (Suc n) (Suc (Suc d)) (CEval (List [Sym ''-'', Sym ''n'', Integer 1]) (Env i (Some global_env))) s
           = (Inr (Integer (k - 1)), s)"
  using assms
  by (simp add: eval_step_def text_of_def then_do_def ret_def run_symbol run_integer loop_lookups
      call_body_def apply_prim_def binary_def arith_def num_of_def lift_def is_symbol_def raise_def)

lemma Env_init_loop:
  "Env_init (List [Sym ''n'']) [v] outer s
     = (Inr (Env (length (frames s)) outer), s\<lparr>frames := frames s @ [[(''n'', v)]]\<rparr>)"
  by (simp add: Env_init_def text_of_def py_str_def new_env_def update_all_def)

lemma storage_grow:
  "storage s 0 = loop_globals \<Longrightarrow> storage (s\<lparr>frames := frames s @ [fr]\<rparr>) 0 = loop_globals"
  "storage (s\<lparr>frames := frames s @ [fr]\<rparr>) (length (frames s)) = fr"
  "storage s 0 = loop_globals \<Longrightarrow> frames s \<noteq> []"
  by (auto simp: storage_def nth_append loop_globals_def split: if_splits)

lemma loop_rounds:
  assumes "storage s 0 = loop_globals" "storage s i = [(''n'', Integer (int k))]" "i \<noteq> 0"
  shows "fst (eval_loop (run (Suc n) (Suc (Suc 0))) (2 * k + 2) loop_body (Env i (Some global_env)) s)
           = Inr (Integer 0)"
  using assms
proof (induction k arbitrary: s i)
  case 0
  then show ?case
    using loop_test [of s i 0 n 0]
    by (simp add: loop_body_def eval_step_def text_of_def then_do_def ret_def truthy_def
        numeral_2_eq_2 del: run.simps)
next
  case (Suc k)
  let ?e = "Env i (Some global_env)"
  let ?s' = "s\<lparr>frames := frames s @ [[(''n'', Integer (int k))]]\<rparr>"
  have test: "run (Suc n) (Suc (Suc 0)) (CEval (List [Sym ''='', Sym ''n'', Integer 0]) ?e) s
                = (Inr (Bool False), s)"
    using loop_test [of s i "int (Suc k)" n 0] Suc.prems by simp
  have dec: "run (Suc n) (Suc (Suc 0)) (CEval (List [Sym ''-'', Sym ''n'', Integer 1]) ?e) s
                = (Inr (Integer (int k)), s)"
    using loop_decrement [of s i "int (Suc k)" n 0] Suc.prems by simp
  have lp: "run (Suc n) (Suc (Suc 0)) (CEval (Sym ''loop'') ?e) s = (Inr loop_proc, s)"
    using loop_lookups(4) [of s i] Suc.prems by (simp add: run_symbol del: run.simps)
  have step1: "eval_step (run (Suc n) (Suc (Suc 0))) loop_body ?e s
                 = (Inr (Continue (List [Sym ''loop'', List [Sym ''-'', Sym ''n'', Integer 1]]) ?e), s)"
    using test
    by (simp add: loop_body_def eval_step_def text_of_def then_do_def ret_def truthy_def
        del: run.simps)
  have step2: "eval_step (run (Suc n) (Suc (Suc 0)))
                 (List [Sym ''loop'', List [Sym ''-'', Sym ''n'', Integer 1]]) ?e s
                 = (Inr (Continue loop_body (Env (length (frames s)) (Some global_env))), ?s')"
    using lp dec
    by (simp add: eval_step_def text_of_def then_do_def ret_def loop_proc_def Env_init_loop
        del: run.simps)
  have "fst (eval_loop (run (Suc n) (Suc (Suc 0))) (2 * k + 2) loop_body
               (Env (length (frames s)) (Some global_env)) ?s') = Inr (Integer 0)"
    using Suc.prems by (intro Suc.IH) (simp_all add: storage_grow)
  then show ?case
    using step1 step2 by (simp del: run.simps)
qed

lemma loop_call:
  "fst (eval (2 * k + 3) 3 (List [Sym ''loop'', Integer (int k)]) global_env with_loop)
     = Inr (Integer 0)"
proof -
  let ?s' = "with_loop\<lparr>frames := frames with_loop @ [[(''n'', Integer (int k))]]\<rparr>"
  have g: "storage with_loop 0 = loop_globals"
    by (simp add: with_loop_eq storage_def)
  have lp: "run (Suc (2 * k + 2)) (Suc (Suc 0)) (CEval (Sym ''loop'') global_env) with_loop
              = (Inr loop_proc, with_loop)"
    using g by (simp add: run_symbol lookup_def global_env_def loop_globals_lookup del: run.simps)
  have step: "eval_step (run (Suc (2 * k + 2)) (Suc (Suc 0)))
                 (List [Sym ''loop'', Integer (int k)]) global_env with_loop
                 = (Inr (Continue loop_body (Env (length (frames with_loop)) (Some global_env))), ?s')"
    using lp
    by (simp add: eval_step_def text_of_def then_do_def ret_def loop_proc_def Env_init_loop
        run_integer del: run.simps)
  have "fst (eval_loop (run (Suc (2 * k + 2)) (Suc (Suc 0))) (2 * k + 2) loop_body
               (Env (length (frames with_loop)) (Some global_env)) ?s') = Inr (Integer 0)"
    using g by (intro loop_rounds) (simp_all add: storage_grow)
  moreover have "eval (2 * k + 3) 3 (List [Sym ''loop'', Integer (int k)]) global_env with_loop
      = eval_loop (run (Suc (2 * k + 2)) (Suc (Suc 0))) (Suc (2 * k + 2))
          (List [Sym ''loop'', Integer (int k)]) global_env with_loop"
    by (simp add: eval_def numeral_3_eq_3)
  ultimately show ?thesis
    using step by (simp del: run.simps)
qed

lemma eval_loop_tail_call:
  assumes "f \<notin> set special_heads"
    and "each (\<lambda>exp. rec (CEval exp env0)) (f # es) s = (Inr (Procedure parms body env # args), sa)"
    and "Env_init parms args (Some env) sa = (Inr e', sb)"
  shows "eval_loop rec (Suc m) (List (f # es)) env0 s = eval_loop rec m body e' sb"
  using assms by (simp add: eval_step_application)

text \<open>For comparison, a recursion that is not a tail call: \<open>(count 4)\<close> needs 7 activations.\<close>

lemma non_tail_call_example:
  "(case eval_text 100 100 ''(define (count n) (if (= n 0) 0 (+ 1 (count (- n 1)))))'' booted of
      Some (r, s) \<Rightarrow>
        map (\<lambda>d. fst (eval 100 d (List [Sym ''count'', Integer 4]) global_env s)) [6, 7]
    | None \<Rightarrow> [])
   = [Inl RecursionDepth, Inr (Integer 4)]"
  unfolding booted_eq by code_simp

text \<open>
  C1.  In the state in which \<open>loop\<close> is defined as the counting loop, \<open>(loop k)\<close> evaluates
  to \<open>0\<close> for every \<open>k\<close> within three nested activations of the interpreter, whatever \<open>k\<close>
  is; only the number of rounds of the loop of \<open>eval\<close> grows with \<open>k\<close>.  The reason is the
  step of the loop on the application of a closure: the round ends with the body as the
  current form and the new environment as the current environment, and the next round
  belongs to the same activation (the interpreter \<open>rec\<close> of the nested activations is the
  same on both sides).
\<close>

theorem tail_call_constant_depth:
  "eval_text 100 100 loop_text booted = Some (Inr NoneV, with_loop)
   \<and> (\<forall>k. fst (eval (2 * k + 3) 3 (List [Sym ''loop'', Integer (int k)]) global_env with_loop)
          = Inr (Integer 0))
   \<and> (f \<notin> set special_heads
        \<and> each (\<lambda>exp. rec (CEval exp env0)) (f # es) s
            = (Inr (Procedure parms body env # args), sa)
        \<and> Env_init parms args (Some env) sa = (Inr e', sb)
       \<longrightarrow> eval_loop rec (Suc m) (List (f # es)) env0 s = eval_loop rec m body e' sb)"
  using define_loop with_loop_eq loop_call eval_loop_tail_call
  by simp

theorem tail_call_constant_depth_witness:
  "fst (eval 2003 3 (List [Sym ''loop'', Integer 1000]) global_env with_loop) = Inr (Integer 0)
   \<and> eval_loop (run 1 1) (Suc 0) (List [Sym ''loop'', Integer 5]) global_env with_loop
       = eval_loop (run 1 1) 0 loop_body (Env (length (frames with_loop)) (Some global_env))
           (with_loop\<lparr>frames := frames with_loop @ [[(''n'', Integer 5)]]\<rparr>)"
proof -
  have g: "storage with_loop 0 = loop_globals"
    by (simp add: with_loop_eq storage_def)
  have lp: "run 1 1 (CEval (Sym ''loop'') global_env) with_loop = (Inr loop_proc, with_loop)"
    using g run_symbol [of 0 0 "''loop''" global_env with_loop]
    by (simp add: lookup_def global_env_def loop_globals_lookup del: run.simps)
  have ev: "each (\<lambda>exp. run 1 1 (CEval exp global_env)) [Sym ''loop'', Integer 5] with_loop
              = (Inr [Procedure (List [Sym ''n'']) loop_body global_env, Integer 5], with_loop)"
    using lp run_integer [of 0 0 5 global_env with_loop]
    by (simp add: then_do_def ret_def loop_proc_def del: run.simps)
  have hd: "Sym ''loop'' \<notin> set special_heads"
    by (simp add: special_heads_def)
  note t = tail_call_constant_depth
    [where f = "Sym ''loop''" and rec = "run 1 1" and env0 = global_env and es = "[Integer 5]"
       and s = with_loop and parms = "List [Sym ''n'']" and body = loop_body
       and env = global_env and args = "[Integer 5]" and sa = with_loop
       and e' = "Env (length (frames with_loop)) (Some global_env)"
       and sb = "with_loop\<lparr>frames := frames with_loop @ [[(''n'', Integer 5)]]\<rparr>" and m = 0]
  from t have "fst (eval (2 * 1000 + 3) 3 (List [Sym ''loop'', Integer (int 1000)]) global_env
                      with_loop) = Inr (Integer 0)"
    by blast
  moreover from t hd ev Env_init_loop [of "Integer 5" "Some global_env" with_loop]
  have "eval_loop (run 1 1) (Suc 0) (List [Sym ''loop'', Integer 5]) global_env with_loop
       = eval_loop (run 1 1) 0 loop_body (Env (length (frames with_loop)) (Some global_env))
           (with_loop\<lparr>frames := frames with_loop @ [[(''n'', Integer 5)]]\<rparr>)"
    by blast
  ultimately show ?thesis by simp
qed

section \<open>Larger budgets give the same answers\<close>

lemma ok_simps [simp]:
  "ok (Inr a)" "\<not> ok (Inl RecursionDepth)" "\<not> ok (Inl LoopFuel)"
  by (simp_all add: ok_def)

lemma le_comp_refl [simp]: "le_comp m m"
  by (simp add: le_comp_def)

lemma le_compD: "le_comp m m' \<Longrightarrow> m s = (r, s') \<Longrightarrow> ok r \<Longrightarrow> m' s = (r, s')"
  by (simp add: le_comp_def)

lemma le_recD: "le_rec rec rec' \<Longrightarrow> le_comp (rec c) (rec' c)"
  by (simp add: le_rec_def)

lemma ok_Inl_iff: "ok (Inl e :: error + 'a) = ok (Inl e :: error + 'b)"
  by (simp add: ok_def)

lemma le_then_do:
  assumes "le_comp m m'" and "\<And>a. le_comp (k a) (k' a)"
  shows "le_comp (then_do m k) (then_do m' k')"
  unfolding le_comp_def
proof (intro allI impI)
  fix s r s'
  assume run: "then_do m k s = (r, s')" and okr: "ok r"
  obtain r1 s1 where m: "m s = (r1, s1)" by (cases "m s")
  show "then_do m' k' s = (r, s')"
  proof (cases r1)
    case (Inl e)
    with run m have "r = Inl e" "s' = s1" by (simp_all add: then_do_def)
    with okr have "ok (Inl e :: error + 'a)" by (simp add: ok_def)
    with m Inl assms(1) have "m' s = (Inl e, s1)" by (auto dest: le_compD)
    with \<open>r = Inl e\<close> \<open>s' = s1\<close> show ?thesis by (simp add: then_do_def)
  next
    case (Inr a)
    with m assms(1) have m': "m' s = (Inr a, s1)" by (auto dest: le_compD)
    from run m Inr have "k a s1 = (r, s')" by (simp add: then_do_def)
    with okr assms(2) have "k' a s1 = (r, s')" by (auto dest: le_compD)
    with m' show ?thesis by (simp add: then_do_def)
  qed
qed

lemma le_each:
  assumes "\<And>x. le_comp (f x) (f' x)"
  shows "le_comp (each f xs) (each f' xs)"
  by (induction xs) (auto intro!: le_then_do assms)

lemma le_state: "(\<And>s. le_comp (F s) (F' s)) \<Longrightarrow> le_comp (\<lambda>s. F s s) (\<lambda>s. F' s s)"
  by (simp add: le_comp_def)

lemma le_callcc: "le_rec rec rec' \<Longrightarrow> le_comp (callcc rec proc) (callcc rec' proc)"
  unfolding le_comp_def le_rec_def callcc_def Let_def
  apply (intro allI impI)
  subgoal for s r s'
    apply (cases "rec (CCall proc [Throw (balls s)]) (s\<lparr>balls := Suc (balls s)\<rparr>)")
    subgoal for r1 s1
      apply (cases r1)
      subgoal for e
        apply (cases e)
        apply (auto simp: ok_def split: if_splits)
        done
      apply (auto simp: ok_def)
      done
    done
  done

lemma le_let_macro: "le_rec rec rec' \<Longrightarrow> le_comp (let_macro rec args) (let_macro rec' args)"
  unfolding let_macro_def
  by (auto intro!: le_then_do le_each simp: le_rec_def split: val.split option.split)

lemma le_apply_prim: "le_rec rec rec' \<Longrightarrow> le_comp (apply_prim rec p args) (apply_prim rec' p args)"
  unfolding apply_prim_def unary_def binary_def
  by (auto intro!: le_then_do le_each le_callcc le_let_macro simp: le_rec_def
      split: prim.split list.split val.split option.split)

lemma le_call_body: "le_rec rec rec' \<Longrightarrow> le_comp (call_body rec proc args) (call_body rec' proc args)"
  unfolding call_body_def
  by (auto intro!: le_then_do le_apply_prim simp: le_rec_def split: val.split list.split)

lemma le_eval_cond:
  "le_rec rec rec' \<Longrightarrow> le_comp (eval_cond rec cs x env) (eval_cond rec' cs x env)"
  by (induction cs) (auto intro!: le_then_do le_each simp: le_rec_def split: val.split list.split option.split)


lemma le_if:
  "(c \<Longrightarrow> le_comp a a') \<Longrightarrow> (\<not> c \<Longrightarrow> le_comp b b')
   \<Longrightarrow> le_comp (if c then a else b) (if c then a' else b')"
  by simp

lemma le_eval_step: 
  assumes rr: "le_rec rec rec'"
  shows "le_comp (eval_step rec x env) (eval_step rec' x env)"
proof (cases "text_of x")
  case (Some n)
  then show ?thesis by (simp add: eval_step_def)
next
  case None
  show ?thesis
  proof (cases x)
    case (List xs)
    show ?thesis
    proof (cases xs)
      case Nil
      with List None show ?thesis by (simp add: eval_step_def)
    next
      case (Cons h t)
      have r: "\<And>c. le_comp (rec c) (rec' c)"
        using rr by (simp add: le_rec_def)
      have app: "le_comp
          (then_do (each (\<lambda>exp. rec (CEval exp env)) (h # t)) (\<lambda>exps.
                        case hd exps of
                          Procedure parms exp penv \<Rightarrow>
                            then_do (Env_init parms (tl exps) (Some penv)) (\<lambda>e.
                              ret (Continue exp e))
                        | proc \<Rightarrow>
                            then_do (call_body rec proc (tl exps)) (\<lambda>v. ret (Return v))))
          (then_do (each (\<lambda>exp. rec' (CEval exp env)) (h # t)) (\<lambda>exps.
                        case hd exps of
                          Procedure parms exp penv \<Rightarrow>
                            then_do (Env_init parms (tl exps) (Some penv)) (\<lambda>e.
                              ret (Continue exp e))
                        | proc \<Rightarrow>
                            then_do (call_body rec' proc (tl exps)) (\<lambda>v. ret (Return v))))"
        apply (rule le_then_do)
         apply (rule le_each)
         apply (rule r)
        subgoal for exps
          by (cases "hd exps") (auto intro!: le_then_do le_call_body [OF rr])
        done
      have iff: "le_comp
          (case t of
                         [test, conseq, alt] \<Rightarrow>
                           then_do (rec (CEval test env)) (\<lambda>v.
                             ret (Continue (if truthy v then conseq else alt) env))
                       | _ \<Rightarrow> raise ValueError)
          (case t of
                         [test, conseq, alt] \<Rightarrow>
                           then_do (rec' (CEval test env)) (\<lambda>v.
                             ret (Continue (if truthy v then conseq else alt) env))
                       | _ \<Rightarrow> raise ValueError)"
        by (auto intro!: le_then_do r split: list.split)
      have setb: "\<And>k. le_comp
          (case t of [var, exp] \<Rightarrow> then_do (rec (CEval exp env)) (k var) | _ \<Rightarrow> raise ValueError)
          (case t of [var, exp] \<Rightarrow> then_do (rec' (CEval exp env)) (k var) | _ \<Rightarrow> raise ValueError)"
        by (auto intro!: le_then_do r split: list.split)
      have beg: "le_comp
          (then_do (each (\<lambda>exp. rec (CEval exp env)) (butlast t)) (\<lambda>_.
                        ret (Continue (last (h # t)) env)))
          (then_do (each (\<lambda>exp. rec' (CEval exp env)) (butlast t)) (\<lambda>_.
                        ret (Continue (last (h # t)) env)))"
        by (auto intro!: le_then_do le_each r)
      have t0: "text_of (List (h # t)) = None"
        by (simp add: text_of_def)
      show ?thesis
        unfolding List Cons eval_step_def t0
        apply (simp only: option.case val.case list.case)
        apply (intro le_if app iff setb beg le_eval_cond [OF rr] le_comp_refl)
        done
    qed
  qed (use None in \<open>simp_all add: eval_step_def\<close>)
qed

lemma le_eval_loop:
  assumes rr: "le_rec rec rec'"
  shows "n \<le> n' \<Longrightarrow> le_comp (eval_loop rec n x env) (eval_loop rec' n' x env)"
proof (induction n arbitrary: n' x env)
  case 0
  then show ?case by (simp add: le_comp_def)
next
  case (Suc n)
  then obtain m where n': "n' = Suc m" and nm: "n \<le> m"
    by (cases n') auto
  show ?case
    unfolding le_comp_def n'
  proof (intro allI impI)
    fix s r s'
    assume run: "eval_loop rec (Suc n) x env s = (r, s')" and okr: "ok r"
    obtain r1 s1 where st: "eval_step rec x env s = (r1, s1)"
      by (cases "eval_step rec x env s")
    show "eval_loop rec' (Suc m) x env s = (r, s')"
    proof (cases r1)
      case (Inl e)
      with run st have "r = Inl e" "s' = s1" by simp_all
      with okr have "ok (Inl e :: error + outcome)" by (simp add: ok_def)
      with st Inl le_eval_step [OF rr, of x env] have "eval_step rec' x env s = (Inl e, s1)"
        by (auto dest: le_compD)
      with \<open>r = Inl e\<close> \<open>s' = s1\<close> show ?thesis by simp
    next
      case (Inr out)
      with st le_eval_step [OF rr, of x env] have st': "eval_step rec' x env s = (Inr out, s1)"
        by (auto dest: le_compD)
      show ?thesis
      proof (cases out)
        case (Return v)
        with run st st' Inr show ?thesis by simp
      next
        case (Continue x' env')
        with run st Inr have "eval_loop rec n x' env' s1 = (r, s')" by simp
        with Suc.IH [OF nm, of x' env'] okr have "eval_loop rec' m x' env' s1 = (r, s')"
          by (auto dest: le_compD)
        with st' Continue show ?thesis by simp
      qed
    qed
  qed
qed

lemma le_expand_define:
  assumes rr: "le_rec rec rec'"
  shows "le_comp (expand_define rec def xs toplevel) (expand_define rec' def xs toplevel)"
proof -
  have r: "\<And>c. le_comp (rec c) (rec' c)"
    using rr by (simp add: le_rec_def)
  show ?thesis
    unfolding expand_define_def Let_def
    by (intro le_then_do le_if r le_comp_refl)
qed

lemma le_expand_body:
  assumes rr: "le_rec rec rec'"
  shows "le_comp (expand_body rec x toplevel) (expand_body rec' x toplevel)"
proof -
  have r: "\<And>c. le_comp (rec c) (rec' c)"
    using rr by (simp add: le_rec_def)
  have m: "\<And>xs s. le_comp
     (case (if is_symbol (hd xs)
                         then map_of (macro_table s) (the (text_of (hd xs))) else None) of
                     Some m \<Rightarrow>
                       then_do (rec (CCall m (tl xs))) (\<lambda>y. rec (CExpand y toplevel))
                   | None \<Rightarrow>
                       then_do (each (\<lambda>xi. rec (CExpand xi False)) xs) (\<lambda>zs. ret (List zs)))
     (case (if is_symbol (hd xs)
                         then map_of (macro_table s) (the (text_of (hd xs))) else None) of
                     Some m \<Rightarrow>
                       then_do (rec' (CCall m (tl xs))) (\<lambda>y. rec' (CExpand y toplevel))
                   | None \<Rightarrow>
                       then_do (each (\<lambda>xi. rec' (CExpand xi False)) xs) (\<lambda>zs. ret (List zs)))"
    by (auto intro!: le_then_do le_each r split: option.split)
  have m': "\<And>xs. le_comp
     (\<lambda>s. case (if is_symbol (hd xs)
                         then map_of (macro_table s) (the (text_of (hd xs))) else None) of
                     Some m \<Rightarrow>
                       then_do (rec (CCall m (tl xs))) (\<lambda>y. rec (CExpand y toplevel)) s
                   | None \<Rightarrow>
                       then_do (each (\<lambda>xi. rec (CExpand xi False)) xs) (\<lambda>zs. ret (List zs)) s)
     (\<lambda>s. case (if is_symbol (hd xs)
                         then map_of (macro_table s) (the (text_of (hd xs))) else None) of
                     Some m \<Rightarrow>
                       then_do (rec' (CCall m (tl xs))) (\<lambda>y. rec' (CExpand y toplevel)) s
                   | None \<Rightarrow>
                       then_do (each (\<lambda>xi. rec' (CExpand xi False)) xs) (\<lambda>zs. ret (List zs)) s)"
    subgoal for xs
      unfolding le_comp_def
      apply (intro allI impI)
      subgoal for s r s'
        using m [of xs s]
        by (cases "if is_symbol (hd xs) then map_of (macro_table s) (the (text_of (hd xs)))
                   else None")
          (auto simp: le_comp_def)
      done
    done
  show ?thesis
  proof (cases x)
    case (List xs)
    show ?thesis
      unfolding expand_body_def List
      apply (simp only: val.case Let_def)
      apply (intro le_then_do le_if le_each r le_comp_refl le_expand_define [OF rr] m')
      done
  qed (simp_all add: expand_body_def)
qed

lemma run_mono: "n \<le> n' \<Longrightarrow> d \<le> d' \<Longrightarrow> le_rec (run n d) (run n' d')"
proof (induction d arbitrary: d')
  case 0
  then show ?case by (simp add: le_rec_def le_comp_def)
next
  case (Suc d)
  then obtain e where d': "d' = Suc e" and de: "d \<le> e"
    by (cases d') auto
  have ih: "le_rec (run n d) (run n' e)"
    using Suc.IH [OF Suc.prems(1) de] .
  show ?case
    unfolding le_rec_def d'
  proof
    fix c
    show "le_comp (run n (Suc d) c) (run n' (Suc e) c)"
    proof (cases c)
      case (CEval x env)
      with le_eval_loop [OF ih Suc.prems(1), of x env] show ?thesis
        by (simp add: le_comp_def)
    next
      case (CExpand x t)
      with le_expand_body [OF ih, of x t] show ?thesis
        by (simp add: le_comp_def)
    next
      case (CCall p args)
      with le_call_body [OF ih, of p args] show ?thesis
        by (simp add: le_comp_def)
    qed
  qed
qed

lemma run_deterministic:
  assumes "run n d c s = (r, s')" "ok r" "run n' d' c s = (r', s'')" "ok r'"
  shows "r = r' \<and> s' = s''"
proof -
  have "run (max n n') (max d d') c s = (r, s')"
    using run_mono [of n "max n n'" d "max d d'"] assms(1,2)
    by (auto simp: le_rec_def dest: le_compD)
  moreover have "run (max n n') (max d d') c s = (r', s'')"
    using run_mono [of n' "max n n'" d' "max d d'"] assms(3,4)
    by (auto simp: le_rec_def dest: le_compD)
  ultimately show ?thesis by simp
qed


end
